theory Spec2Isabelle
  imports Main
begin

section \<open>JavaScript values used by the services\<close>

text \<open>
  Strings are lists of characters. \<open>startsWith\<close> and \<open>str_includes\<close> are
  \<^verbatim>\<open>String.prototype.startsWith\<close> and \<^verbatim>\<open>String.prototype.includes\<close>.
\<close>

fun startsWith :: "string \<Rightarrow> string \<Rightarrow> bool" where
  "startsWith s [] = True"
| "startsWith [] (p # ps) = False"
| "startsWith (c # cs) (p # ps) = (c = p \<and> startsWith cs ps)"

fun str_includes :: "string \<Rightarrow> string \<Rightarrow> bool" where
  "str_includes [] sub = startsWith [] sub"
| "str_includes (c # cs) sub = (startsWith (c # cs) sub \<or> str_includes cs sub)"

text \<open>
  An \<^verbatim>\<open>Error\<close> object, as the code and the engine create them: \<^verbatim>\<open>new Error(m)\<close> is
  \<open>Error (Some m)\<close>. A computation that may throw, or a promise that may reject, yields
  \<open>Inl\<close> of what is thrown. \<open>TypeError\<close> and \<open>SyntaxError\<close> are the errors the engine
  throws on a property read of \<^verbatim>\<open>null\<close>, a call of something that is not a function,
  and on text that is not JSON; one fixed message stands for the engine's.
\<close>

datatype error = Error (message: "string option")

definition new_Error :: "string \<Rightarrow> error" where
  "new_Error m = Error (Some m)"

definition SyntaxError :: error where
  "SyntaxError = new_Error ''Unexpected token in JSON''"

definition TypeError :: error where
  "TypeError = new_Error ''Cannot read properties''"

text \<open>
  What a third-party call may throw: \<^verbatim>\<open>null\<close> or \<^verbatim>\<open>undefined\<close>, or a value whose
  \<^verbatim>\<open>message\<close> property is falsy and not a string (\<^verbatim>\<open>undefined\<close> included), a string,
  or a truthy value that is not a string.
\<close>

datatype message_value = NoMessage | MsgString string | MsgOther

datatype thrown = Nullish | Raised message_value

definition thrown_of :: "error \<Rightarrow> thrown" where
  "thrown_of e = (case message e of None \<Rightarrow> Raised NoMessage | Some m \<Rightarrow> Raised (MsgString m))"

text \<open>\<^verbatim>\<open>s || d\<close> for an optional string: \<^verbatim>\<open>undefined\<close> and the empty string are falsy.\<close>

definition or_else :: "string option \<Rightarrow> string \<Rightarrow> string" where
  "or_else s d = (case s of None \<Rightarrow> d | Some v \<Rightarrow> if v = [] then d else v)"

text \<open>
  A JavaScript number: a finite value, negative zero, NaN or an infinity. A finite value
  is written as an integer: the timestamps and scores of the application are integers,
  and an integer of magnitude at most \<open>2^53\<close> is a double exactly (\<open>exact_number\<close>).
  A larger integer need not be a double: what is proved for every \<open>Finite k\<close> holds for
  those that are. Finite values with a fraction are outside the model.
\<close>

datatype number = Finite int | NegZero | NaN | PosInfinity | NegInfinity

fun exact_number :: "number \<Rightarrow> bool" where
  "exact_number (Finite k) = (- (2 ^ 53) \<le> k \<and> k \<le> 2 ^ 53)"
| "exact_number n = False"

text \<open>\<^verbatim>\<open>n || d\<close> for an optional number: \<^verbatim>\<open>undefined\<close>, zero, negative zero and NaN
  are falsy.\<close>

fun number_or :: "number option \<Rightarrow> number \<Rightarrow> number" where
  "number_or None d = d"
| "number_or (Some (Finite k)) d = (if k = 0 then d else Finite k)"
| "number_or (Some NegZero) d = d"
| "number_or (Some NaN) d = d"
| "number_or (Some PosInfinity) d = PosInfinity"
| "number_or (Some NegInfinity) d = NegInfinity"

text \<open>
  Array methods whose callback may throw: \<^verbatim>\<open>filter\<close> calls it on every element,
  \<^verbatim>\<open>findIndex\<close> up to the first element it accepts (\<open>-1\<close> when there is none).
\<close>

fun filter_throw :: "('a \<Rightarrow> error + bool) \<Rightarrow> 'a list \<Rightarrow> error + 'a list" where
  "filter_throw p [] = Inr []"
| "filter_throw p (x # xs) =
     (case p x of
        Inl e \<Rightarrow> Inl e
      | Inr b \<Rightarrow>
          (case filter_throw p xs of
             Inl e \<Rightarrow> Inl e
           | Inr ys \<Rightarrow> Inr (if b then x # ys else ys)))"

fun findIndex :: "('a \<Rightarrow> error + bool) \<Rightarrow> 'a list \<Rightarrow> error + int" where
  "findIndex p [] = Inr (- 1)"
| "findIndex p (x # xs) =
     (case p x of
        Inl e \<Rightarrow> Inl e
      | Inr b \<Rightarrow>
          (if b then Inr 0
           else (case findIndex p xs of
                   Inl e \<Rightarrow> Inl e
                 | Inr i \<Rightarrow> Inr (if i < 0 then - 1 else i + 1))))"

section \<open>Objects and their JSON form\<close>

text \<open>
  The JavaScript values that JSON can carry, with every number of the language. An object
  keeps its properties in insertion order. \<open>get_prop k v\<close> is the value of the property
  \<open>k\<close> of a value that is not \<^verbatim>\<open>null\<close> (\<open>None\<close> is \<^verbatim>\<open>undefined\<close>); \<open>member v k\<close>
  is the expression \<^verbatim>\<open>v.k\<close>, which throws on \<^verbatim>\<open>null\<close>. The keys read by the code
  (\<^verbatim>\<open>id\<close>, \<^verbatim>\<open>userId\<close>) are not properties of arrays, strings, numbers or booleans.
\<close>

datatype jsval =
    JNull
  | JBool bool
  | JNum number
  | JStr string
  | JArr "jsval list"
  | JObj "(string \<times> jsval) list"

fun get_prop :: "string \<Rightarrow> jsval \<Rightarrow> jsval option" where
  "get_prop k (JObj kvs) = map_of kvs k"
| "get_prop k v = None"

definition member :: "jsval \<Rightarrow> string \<Rightarrow> error + jsval option" where
  "member v k = (if v = JNull then Inl TypeError else Inr (get_prop k v))"

text \<open>\<^verbatim>\<open>v.k === s\<close> for a string \<open>s\<close>.\<close>

definition member_is :: "string \<Rightarrow> string \<Rightarrow> jsval \<Rightarrow> error + bool" where
  "member_is k s v = (case member v k of Inl e \<Rightarrow> Inl e | Inr p \<Rightarrow> Inr (p = Some (JStr s)))"

text \<open>Calling an array method on a value: only an array has one.\<close>

definition as_array :: "jsval \<Rightarrow> error + jsval list" where
  "as_array v = (case v of JArr xs \<Rightarrow> Inr xs | _ \<Rightarrow> Inl TypeError)"

text \<open>
  \<open>serialized v\<close> is \<^verbatim>\<open>JSON.parse(JSON.stringify(v))\<close>: NaN and the infinities are
  written as \<^verbatim>\<open>null\<close>, negative zero as \<^verbatim>\<open>0\<close>; everything else is kept.
\<close>

fun serialized :: "jsval \<Rightarrow> jsval" where
  "serialized JNull = JNull"
| "serialized (JBool b) = JBool b"
| "serialized (JNum n) =
     (case n of
        Finite k \<Rightarrow> JNum (Finite k)
      | NegZero \<Rightarrow> JNum (Finite 0)
      | NaN \<Rightarrow> JNull
      | PosInfinity \<Rightarrow> JNull
      | NegInfinity \<Rightarrow> JNull)"
| "serialized (JStr s) = JStr s"
| "serialized (JArr vs) = JArr (map serialized vs)"
| "serialized (JObj kvs) = JObj (map (\<lambda>kv. (fst kv, serialized (snd kv))) kvs)"

text \<open>An optional property is present only when it is defined
  (a property set to \<^verbatim>\<open>undefined\<close> is read as absent, and \<^verbatim>\<open>JSON.stringify\<close> omits
  it).\<close>

definition opt_entry :: "string \<Rightarrow> ('a \<Rightarrow> jsval) \<Rightarrow> 'a option \<Rightarrow> (string \<times> jsval) list" where
  "opt_entry k enc v = (case v of None \<Rightarrow> [] | Some x \<Rightarrow> [(k, enc x)])"

section \<open>types.ts\<close>

datatype RiskLevel = LOW | MEDIUM | HIGH

fun risk_str :: "RiskLevel \<Rightarrow> string" where
  "risk_str LOW = ''Low''"
| "risk_str MEDIUM = ''Medium''"
| "risk_str HIGH = ''High''"

record User =
  user_id :: string
  email :: string
  user_name :: string

record QAPair =
  question :: string
  answer :: string
  timestamp :: number

record Clause =
  clause_id :: string
  clause_text :: string
  explanation :: string
  riskLevel :: RiskLevel
  riskyKeywords :: "string list"
  reason :: string
  conversationHistory :: "QAPair list option"

record ContractAnalysis =
  summary :: string
  overallRisk :: RiskLevel
  riskScore :: "number option"
  clauses :: "Clause list"
  fullText :: "string option"

datatype contract_status = ContractPending | Analyzed | ContractError

record Contract =
  contract_id :: string
  userId :: string
  fileName :: string
  uploadDate :: number
  contract_status :: contract_status
  analysis :: "ContractAnalysis option"
  fileData :: "string option"
  mimeType :: "string option"

datatype source_type = SourceFile | SourceText

record RecentAnalysis =
  ra_id :: string
  ra_name :: string
  createdAt :: string
  sourceType :: source_type
  ra_fileName :: "string option"
  rawText :: string
  ra_riskScore :: number
  riskSummary :: string
  ra_summary :: "string list"
  ra_clauses :: "Clause list"

datatype role = RoleUser | RoleModel

record ChatMessage =
  chat_role :: role
  chat_text :: string
  chat_timestamp :: number

record ComparisonResult =
  recommendedId :: string
  reasoning :: string
  keyDifferences :: "string list"

section \<open>The values of the interfaces as objects\<close>

text \<open>
  A value of each interface as the object it is in memory, and the values no number of
  which changes when they are serialised (\<open>exact_\<close>).
\<close>

definition QAPair_obj :: "QAPair \<Rightarrow> jsval" where
  "QAPair_obj q =
     JObj [(''question'', JStr (question q)), (''answer'', JStr (answer q)),
           (''timestamp'', JNum (timestamp q))]"

definition Clause_obj :: "Clause \<Rightarrow> jsval" where
  "Clause_obj c =
     JObj ([(''id'', JStr (clause_id c)), (''text'', JStr (clause_text c)),
            (''explanation'', JStr (explanation c)),
            (''riskLevel'', JStr (risk_str (riskLevel c))),
            (''riskyKeywords'', JArr (map JStr (riskyKeywords c))),
            (''reason'', JStr (reason c))]
           @ opt_entry ''conversationHistory'' (\<lambda>h. JArr (map QAPair_obj h))
               (conversationHistory c))"

definition ContractAnalysis_obj :: "ContractAnalysis \<Rightarrow> jsval" where
  "ContractAnalysis_obj a =
     JObj ([(''summary'', JStr (summary a)),
            (''overallRisk'', JStr (risk_str (overallRisk a)))]
           @ opt_entry ''riskScore'' JNum (riskScore a)
           @ [(''clauses'', JArr (map Clause_obj (clauses a)))]
           @ opt_entry ''fullText'' JStr (fullText a))"

fun contract_status_str :: "contract_status \<Rightarrow> string" where
  "contract_status_str ContractPending = ''pending''"
| "contract_status_str Analyzed = ''analyzed''"
| "contract_status_str ContractError = ''error''"

definition Contract_obj :: "Contract \<Rightarrow> jsval" where
  "Contract_obj c =
     JObj ([(''id'', JStr (contract_id c)), (''userId'', JStr (userId c)),
            (''fileName'', JStr (fileName c)), (''uploadDate'', JNum (uploadDate c)),
            (''status'', JStr (contract_status_str (contract_status c)))]
           @ opt_entry ''analysis'' ContractAnalysis_obj (analysis c)
           @ opt_entry ''fileData'' JStr (fileData c)
           @ opt_entry ''mimeType'' JStr (mimeType c))"

fun source_type_str :: "source_type \<Rightarrow> string" where
  "source_type_str SourceFile = ''file''"
| "source_type_str SourceText = ''text''"

definition RecentAnalysis_obj :: "RecentAnalysis \<Rightarrow> jsval" where
  "RecentAnalysis_obj a =
     JObj ([(''id'', JStr (ra_id a)), (''name'', JStr (ra_name a)),
            (''createdAt'', JStr (createdAt a)),
            (''sourceType'', JStr (source_type_str (sourceType a)))]
           @ opt_entry ''fileName'' JStr (ra_fileName a)
           @ [(''rawText'', JStr (rawText a)), (''riskScore'', JNum (ra_riskScore a)),
              (''riskSummary'', JStr (riskSummary a)),
              (''summary'', JArr (map JStr (ra_summary a))),
              (''clauses'', JArr (map Clause_obj (ra_clauses a)))])"

definition exact_QAPair :: "QAPair \<Rightarrow> bool" where
  "exact_QAPair q \<longleftrightarrow> exact_number (timestamp q)"

definition exact_Clause :: "Clause \<Rightarrow> bool" where
  "exact_Clause c \<longleftrightarrow>
     (case conversationHistory c of None \<Rightarrow> True | Some h \<Rightarrow> list_all exact_QAPair h)"

definition exact_ContractAnalysis :: "ContractAnalysis \<Rightarrow> bool" where
  "exact_ContractAnalysis a \<longleftrightarrow>
     (case riskScore a of None \<Rightarrow> True | Some n \<Rightarrow> exact_number n) \<and>
     list_all exact_Clause (clauses a)"

definition exact_Contract :: "Contract \<Rightarrow> bool" where
  "exact_Contract c \<longleftrightarrow>
     exact_number (uploadDate c) \<and>
     (case analysis c of None \<Rightarrow> True | Some a \<Rightarrow> exact_ContractAnalysis a)"

definition exact_RecentAnalysis :: "RecentAnalysis \<Rightarrow> bool" where
  "exact_RecentAnalysis a \<longleftrightarrow>
     exact_number (ra_riskScore a) \<and> list_all exact_Clause (ra_clauses a)"

section \<open>services/storageService.ts\<close>

text \<open>
  Browser local storage maps keys to strings. A stored string is the empty string
  (falsy, never parsed), text that is not JSON (\<^verbatim>\<open>JSON.parse\<close> throws), or
  \<open>JSONText v\<close>, a text that \<^verbatim>\<open>JSON.parse\<close> reads as the value \<open>v\<close>.
  \<open>stringify v\<close> is the text \<^verbatim>\<open>JSON.stringify(v)\<close>, which reads as \<open>serialized v\<close>.
  \<open>refuses\<close> is the browser's decision on a write: \<open>Some e\<close> when \<^verbatim>\<open>setItem\<close>
  throws \<open>e\<close> (quota exceeded, storage disabled).
\<close>

datatype item = EmptyText | NotJSON | JSONText jsval

definition stringify :: "jsval \<Rightarrow> item" where
  "stringify v = JSONText (serialized v)"

record localStorage =
  items :: "string \<Rightarrow> item option"
  refuses :: "string \<Rightarrow> item \<Rightarrow> error option"

definition USERS :: string where "USERS = ''legallens_users''"
definition CONTRACTS :: string where "CONTRACTS = ''legallens_contracts''"
definition CURRENT_USER :: string where "CURRENT_USER = ''legallens_current_user''"
definition RECENT_ANALYSES :: string where "RECENT_ANALYSES = ''legallens_recent_analyses''"

definition getItem :: "localStorage \<Rightarrow> string \<Rightarrow> item option" where
  "getItem st k = items st k"

definition setItem :: "localStorage \<Rightarrow> string \<Rightarrow> item \<Rightarrow> error + localStorage" where
  "setItem st k v =
     (case refuses st k v of
        Some e \<Rightarrow> Inl e
      | None \<Rightarrow> Inr (st\<lparr>items := (items st)(k \<mapsto> v)\<rparr>))"

text \<open>
  The expression \<^verbatim>\<open>raw ? JSON.parse(raw) : []\<close>. Whatever the text denotes is
  returned: the declared type \<^verbatim>\<open>T[]\<close> is not checked.
\<close>

definition parse_or_empty :: "item option \<Rightarrow> error + jsval" where
  "parse_or_empty raw =
     (case raw of
        None \<Rightarrow> Inr (JArr [])
      | Some EmptyText \<Rightarrow> Inr (JArr [])
      | Some NotJSON \<Rightarrow> Inl SyntaxError
      | Some (JSONText v) \<Rightarrow> Inr v)"

text \<open>The two lines \<^verbatim>\<open>getContracts\<close> and \<^verbatim>\<open>saveContract\<close> share: read the
  item and parse it.\<close>

definition loadContracts :: "localStorage \<Rightarrow> error + jsval" where
  "loadContracts st = parse_or_empty (getItem st CONTRACTS)"


definition saveContract :: "localStorage \<Rightarrow> Contract \<Rightarrow> error + localStorage" where
  "saveContract st contract =
     (case loadContracts st of
        Inl e \<Rightarrow> Inl e
      | Inr contracts \<Rightarrow>
          (case as_array contracts of
             Inl e \<Rightarrow> Inl e
           | Inr cs \<Rightarrow>
               (case findIndex (member_is ''id'' (contract_id contract)) cs of
                  Inl e \<Rightarrow> Inl e
                | Inr existingIndex \<Rightarrow>
                    (let cs' = (if existingIndex \<ge> 0
                                then cs[nat existingIndex := Contract_obj contract]
                                else cs @ [Contract_obj contract])
                     in case setItem st CONTRACTS (stringify (JArr cs')) of
                          Inl e \<Rightarrow> Inl e
                        | Inr st' \<Rightarrow> Inr st'))))"

text \<open>\<^verbatim>\<open>getRecentAnalyses\<close> returns what was parsed, an array or not.\<close>

definition getRecentAnalyses :: "localStorage \<Rightarrow> jsval" where
  "getRecentAnalyses st =
     (case parse_or_empty (getItem st RECENT_ANALYSES) of
        Inr recent \<Rightarrow> recent
      | Inl e \<Rightarrow> JArr [])"

text \<open>\<^verbatim>\<open>r.id !== analysis.id\<close>.\<close>

definition id_differs :: "string \<Rightarrow> jsval \<Rightarrow> error + bool" where
  "id_differs s r = (case member_is ''id'' s r of Inl e \<Rightarrow> Inl e | Inr b \<Rightarrow> Inr (\<not> b))"

definition saveRecentAnalysis :: "localStorage \<Rightarrow> RecentAnalysis \<Rightarrow> localStorage" where
  "saveRecentAnalysis st a =
     (case as_array (getRecentAnalyses st) of
        Inl e \<Rightarrow> st
      | Inr recent \<Rightarrow>
          (case filter_throw (id_differs (ra_id a)) recent of
             Inl e \<Rightarrow> st
           | Inr filtered \<Rightarrow>
               (let updated = take 10 (RecentAnalysis_obj a # filtered)
                in case setItem st RECENT_ANALYSES (stringify (JArr updated)) of
                     Inr st' \<Rightarrow> st'
                   | Inl e \<Rightarrow> st)))"

section \<open>components/CompareView.tsx\<close>

text \<open>\<^verbatim>\<open>Array.prototype.find\<close>; \<open>None\<close> is \<^verbatim>\<open>undefined\<close>.\<close>

fun find_first :: "('a \<Rightarrow> bool) \<Rightarrow> 'a list \<Rightarrow> 'a option" where
  "find_first P [] = None"
| "find_first P (x # xs) = (if P x then Some x else find_first P xs)"

text \<open>\<^verbatim>\<open>contracts.find(c => c.id === comparison.recommendedId) || contracts[0]\<close>:
  an object is truthy, and \<^verbatim>\<open>contracts[0]\<close> of an empty array is \<^verbatim>\<open>undefined\<close>.\<close>

definition winner :: "Contract list \<Rightarrow> ComparisonResult \<Rightarrow> Contract option" where
  "winner contracts comparison =
     (case find_first (\<lambda>c. contract_id c = recommendedId comparison) contracts of
        Some c \<Rightarrow> Some c
      | None \<Rightarrow> (case contracts of [] \<Rightarrow> None | c # _ \<Rightarrow> Some c))"

section \<open>services/geminiService.ts\<close>

text \<open>
  \<^verbatim>\<open>String.prototype.toLowerCase\<close> on the letters A to Z; other characters of the
  8-bit character type are left as they are.
\<close>

definition toLowerCase_char :: "char \<Rightarrow> char" where
  "toLowerCase_char c =
     (case map_of (zip ''ABCDEFGHIJKLMNOPQRSTUVWXYZ'' ''abcdefghijklmnopqrstuvwxyz'') c of
        Some l \<Rightarrow> l
      | None \<Rightarrow> c)"

definition toLowerCase :: "string \<Rightarrow> string" where
  "toLowerCase s = map toLowerCase_char s"

text \<open>\<^verbatim>\<open>String.prototype.trim\<close>: tab, line feed, vertical tab, form feed, carriage
  return, space and no-break space are the white space of the 8-bit character type.\<close>

definition is_space :: "char \<Rightarrow> bool" where
  "is_space c \<longleftrightarrow> c \<in> set [CHR 0x09, CHR 0x0A, CHR 0x0B, CHR 0x0C, CHR 0x0D, CHR 0x20, CHR 0xA0]"

definition trim :: "string \<Rightarrow> string" where
  "trim s = rev (dropWhile is_space (rev (dropWhile is_space s)))"

text \<open>
  The backend: \<^verbatim>\<open>ai.models.generateContent\<close> either rejects with whatever the SDK
  throws or resolves to a response whose \<^verbatim>\<open>text\<close> may be undefined. A request records
  what the call site passes that depends on the arguments. Every operation returns the
  requests it issued together with its outcome.
\<close>

datatype request =
    AnalyzeDocument "string option" string
  | ClauseQuestion string string
  | Chat "(role \<times> string) list" string
  | Compare "Contract list"

type_synonym backend = "request \<Rightarrow> thrown + string option"

text \<open>
  \<^verbatim>\<open>handleGenAIError\<close> always throws; the model returns the error it throws. Reading
  \<^verbatim>\<open>error.message\<close> of \<^verbatim>\<open>null\<close> or \<^verbatim>\<open>undefined\<close>, and calling
  \<^verbatim>\<open>toLowerCase\<close> on a truthy message that is not a string, throw a \<open>TypeError\<close>
  before the function's own \<^verbatim>\<open>throw\<close>.
\<close>

definition handleGenAIError :: "thrown \<Rightarrow> error" where
  "handleGenAIError t =
     (case t of
        Nullish \<Rightarrow> TypeError
      | Raised NoMessage \<Rightarrow> new_Error ''An unexpected error occurred during processing.''
      | Raised MsgOther \<Rightarrow> TypeError
      | Raised (MsgString m) \<Rightarrow>
          new_Error
            (if m = [] then ''An unexpected error occurred during processing.''
             else
               (let msg = toLowerCase m in
                if str_includes msg ''429'' \<or> str_includes msg ''quota''
                   \<or> str_includes msg ''resource exhausted''
                then ''AI usage limit exceeded. Please try again in a few moments.''
                else if str_includes msg ''403'' \<or> str_includes msg ''key''
                   \<or> str_includes msg ''permission''
                then ''Authentication failed. Please check the system configuration.''
                else if str_includes msg ''413'' \<or> str_includes msg ''too large''
                then ''The document is too large for the AI to process.''
                else if str_includes msg ''503'' \<or> str_includes msg ''overloaded''
                   \<or> str_includes msg ''unavailable''
                then ''AI service is temporarily unavailable. Please retry.''
                else if str_includes msg ''safety'' \<or> str_includes msg ''blocked''
                then ''The document was flagged by safety settings and could not be analyzed.''
                else if str_includes msg ''json'' \<or> str_includes msg ''parse''
                then ''Received an invalid response format from AI. Please retry.''
                else ''Processing failed: '' @ m)))"

text \<open>
  The taxonomy in the words of the specification: six kinds, each recognised by
  substrings of the lower-cased message and each with one message; a raw message belongs
  to the first kind, in this order, one of whose substrings it contains.
\<close>

datatype error_kind =
  Quota | Auth | PayloadTooLarge | ServiceUnavailable | SafetyBlock | MalformedResponse

fun kind_substrings :: "error_kind \<Rightarrow> string list" where
  "kind_substrings Quota = [''429'', ''quota'', ''resource exhausted'']"
| "kind_substrings Auth = [''403'', ''key'', ''permission'']"
| "kind_substrings PayloadTooLarge = [''413'', ''too large'']"
| "kind_substrings ServiceUnavailable = [''503'', ''overloaded'', ''unavailable'']"
| "kind_substrings SafetyBlock = [''safety'', ''blocked'']"
| "kind_substrings MalformedResponse = [''json'', ''parse'']"

fun kind_message :: "error_kind \<Rightarrow> string" where
  "kind_message Quota = ''AI usage limit exceeded. Please try again in a few moments.''"
| "kind_message Auth = ''Authentication failed. Please check the system configuration.''"
| "kind_message PayloadTooLarge = ''The document is too large for the AI to process.''"
| "kind_message ServiceUnavailable = ''AI service is temporarily unavailable. Please retry.''"
| "kind_message SafetyBlock =
     ''The document was flagged by safety settings and could not be analyzed.''"
| "kind_message MalformedResponse =
     ''Received an invalid response format from AI. Please retry.''"

definition kind_matches :: "string \<Rightarrow> error_kind \<Rightarrow> bool" where
  "kind_matches msg k \<longleftrightarrow> list_ex (str_includes msg) (kind_substrings k)"

definition taxonomy_kind :: "string \<Rightarrow> error_kind option" where
  "taxonomy_kind m =
     List.find (kind_matches (toLowerCase m))
       [Quota, Auth, PayloadTooLarge, ServiceUnavailable, SafetyBlock, MalformedResponse]"

text \<open>\<^verbatim>\<open>replace(/^```(json)?\n?/i, '')\<close> on a string that starts with three backticks,
  and \<^verbatim>\<open>replace(/```$/, '')\<close>.\<close>

definition strip_fence_open :: "string \<Rightarrow> string" where
  "strip_fence_open s =
     (let r = drop 3 s;
          r = (if toLowerCase (take 4 r) = ''json'' then drop 4 r else r)
      in case r of c # cs \<Rightarrow> if c = CHR 0x0A then cs else r | [] \<Rightarrow> r)"

definition strip_fence_close :: "string \<Rightarrow> string" where
  "strip_fence_close s =
     (if 3 \<le> length s \<and> drop (length s - 3) s = ''```'' then take (length s - 3) s else s)"

text \<open>\<open>parse\<close> is \<^verbatim>\<open>JSON.parse(cleanText) as T\<close>; \<open>None\<close> when it throws. The cast is
  unchecked: the value read is taken to have the type \<^verbatim>\<open>T\<close>.\<close>

definition parseJSONResponse :: "(string \<Rightarrow> 'a option) \<Rightarrow> string option \<Rightarrow> error + 'a" where
  "parseJSONResponse parse text =
     (case text of
        None \<Rightarrow> Inl (new_Error ''Empty response from AI service.'')
      | Some t \<Rightarrow>
          if t = [] then Inl (new_Error ''Empty response from AI service.'')
          else
            (let cleanText = trim t;
                 cleanText = (if startsWith cleanText ''```''
                              then strip_fence_close (strip_fence_open cleanText)
                              else cleanText)
             in case parse cleanText of
                  Some v \<Rightarrow> Inr v
                | None \<Rightarrow>
                    Inl (new_Error
                      ''Failed to parse AI response. The model output was not valid JSON.'')))"

definition analyzeContract ::
  "string \<Rightarrow> backend \<Rightarrow> (string \<Rightarrow> ContractAnalysis option) \<Rightarrow> string option \<Rightarrow> string
     \<Rightarrow> request list \<times> (error + ContractAnalysis)" where
  "analyzeContract API_KEY generateContent parse base64Data mime =
     (if API_KEY = []
      then ([], Inl (new_Error ''API Key is missing. Please set process.env.API_KEY.''))
      else
        (let req = AnalyzeDocument base64Data mime
         in ([req],
             case generateContent req of
               Inl t \<Rightarrow> Inl (handleGenAIError t)
             | Inr response \<Rightarrow>
                 (case parseJSONResponse parse response of
                    Inl e \<Rightarrow> Inl (handleGenAIError (thrown_of e))
                  | Inr a \<Rightarrow> Inr a))))"

definition askClauseQuestion ::
  "string \<Rightarrow> backend \<Rightarrow> string \<Rightarrow> string \<Rightarrow> request list \<times> (error + string)" where
  "askClauseQuestion API_KEY generateContent clauseText userQuestion =
     (if API_KEY = [] then ([], Inr ''API Key missing.'')
      else
        (let req = ClauseQuestion clauseText userQuestion
         in ([req],
             case generateContent req of
               Inr response \<Rightarrow> Inr (or_else response ''Could not generate an answer.'')
             | Inl t \<Rightarrow>
                 Inr ''Sorry, I couldn't answer that right now due to a connection issue.'')))"

definition sendChatMessage ::
  "string \<Rightarrow> backend \<Rightarrow> ChatMessage list \<Rightarrow> string \<Rightarrow> string
     \<Rightarrow> request list \<times> (error + string)" where
  "sendChatMessage API_KEY generateContent history newMessage contractContext =
     (if API_KEY = [] then ([], Inr ''API Key missing.'')
      else
        (let contents = map (\<lambda>msg. (chat_role msg, chat_text msg)) history
                          @ [(RoleUser, newMessage)];
             req = Chat contents contractContext
         in ([req],
             case generateContent req of
               Inr response \<Rightarrow> Inr (or_else response ''I couldn't generate a response.'')
             | Inl t \<Rightarrow>
                 Inr ''Sorry, I'm having trouble connecting right now. Please try again.'')))"

definition compareContracts ::
  "string \<Rightarrow> backend \<Rightarrow> (string \<Rightarrow> ComparisonResult option) \<Rightarrow> Contract list
     \<Rightarrow> request list \<times> (error + ComparisonResult)" where
  "compareContracts API_KEY generateContent parse contracts =
     (if API_KEY = [] then ([], Inl (new_Error ''API Key missing''))
      else
        (let req = Compare contracts
         in ([req],
             case generateContent req of
               Inl t \<Rightarrow> Inl (handleGenAIError t)
             | Inr response \<Rightarrow>
                 (case parseJSONResponse parse response of
                    Inl e \<Rightarrow> Inl (handleGenAIError (thrown_of e))
                  | Inr r \<Rightarrow> Inr r))))"

section \<open>components/ContractUpload.tsx\<close>

record File =
  file_name :: string
  file_type :: string
  file_size :: nat

datatype upload_status = Pending | Processing | Success | StatusError

record FileUploadState =
  file' :: File
  status :: upload_status
  error :: "string option"
  contract :: "Contract option"







text \<open>\<^verbatim>\<open>String.prototype.split\<close> on a one-character separator, and indexing an
  array (\<open>None\<close> is \<^verbatim>\<open>undefined\<close>).\<close>

fun js_split :: "char \<Rightarrow> string \<Rightarrow> string list" where
  "js_split sep [] = [[]]"
| "js_split sep (c # cs) =
     (if c = sep then [] # js_split sep cs
      else (case js_split sep cs of
              w # ws \<Rightarrow> (c # w) # ws
            | [] \<Rightarrow> [[c]]))"

definition nth_opt :: "'a list \<Rightarrow> nat \<Rightarrow> 'a option" where
  "nth_opt xs i = (if i < length xs then Some (xs ! i) else None)"

text \<open>
  What one call of \<^verbatim>\<open>processFile\<close> takes from its surroundings: the outcome of the
  \<^verbatim>\<open>FileReader\<close> (the data URL, or \<open>None\<close> when \<^verbatim>\<open>onerror\<close> fires),
  \<^verbatim>\<open>analyzeContract\<close> with its key and backend, the value of \<^verbatim>\<open>generateId()\<close>,
  of \<^verbatim>\<open>Date.now()\<close> and the ISO rendering of that date. What \<^verbatim>\<open>analyzeContract\<close>
  resolves to is taken to have its declared type \<^verbatim>\<open>ContractAnalysis\<close>, and what it
  rejects with to be an \<^verbatim>\<open>Error\<close> object, as \<^verbatim>\<open>handleGenAIError\<close> throws.
\<close>

record file_env =
  reader_result :: "string option"
  analyze :: "string option \<Rightarrow> string \<Rightarrow> error + ContractAnalysis"
  generateId :: string
  Date_now :: int
  toISOString :: string

text \<open>The object literals \<^verbatim>\<open>newContract\<close> and \<^verbatim>\<open>recentAnalysis\<close> of
  \<^verbatim>\<open>processFile\<close>.\<close>

definition newContract ::
  "User \<Rightarrow> file_env \<Rightarrow> FileUploadState \<Rightarrow> string option \<Rightarrow> ContractAnalysis \<Rightarrow> Contract" where
  "newContract user env fileState base64Data an =
     \<lparr>contract_id = generateId env, userId = user_id user,
      fileName = file_name (file' fileState), uploadDate = Finite (Date_now env),
      contract_status = Analyzed, analysis = Some an,
      fileData = base64Data,
      mimeType = Some (file_type (file' fileState))\<rparr>"

definition recentAnalysis :: "file_env \<Rightarrow> Contract \<Rightarrow> ContractAnalysis \<Rightarrow> RecentAnalysis" where
  "recentAnalysis env c an =
     \<lparr>ra_id = contract_id c,
      ra_name = fileName c,
      createdAt = toISOString env, sourceType = SourceFile,
      ra_fileName = Some (fileName c),
      rawText = or_else (fullText an) [],
      ra_riskScore = number_or (riskScore an) (Finite 0),
      riskSummary = risk_str (overallRisk an),
      ra_summary = [summary an],
      ra_clauses = clauses an\<rparr>"

text \<open>The body of the outer \<^verbatim>\<open>try\<close> of \<^verbatim>\<open>processFile\<close>.\<close>

definition processFile_try ::
  "User \<Rightarrow> file_env \<Rightarrow> localStorage \<Rightarrow> FileUploadState
     \<Rightarrow> error + (localStorage \<times> FileUploadState)" where
  "processFile_try user env st fileState =
     (case reader_result env of
        None \<Rightarrow> Inl (new_Error ''Failed to read file'')
      | Some base64String \<Rightarrow>
          (let base64Data = nth_opt (js_split (CHR '','') base64String) 1
           in case analyze env base64Data (file_type (file' fileState)) of
                Inl e \<Rightarrow> Inl e
              | Inr an \<Rightarrow>
                  (let c = newContract user env fileState base64Data an
                   in case saveContract st c of
                        Inl storageError \<Rightarrow>
                          Inl (new_Error (''Analyzed successfully but failed to save to ''
                                 @ ''browser storage. Check available disk space.''))
                      | Inr st1 \<Rightarrow>
                          Inr (saveRecentAnalysis st1 (recentAnalysis env c an),
                               fileState\<lparr>status := Success, contract := Some c\<rparr>))))"

text \<open>\<^verbatim>\<open>processFile\<close>: the storage after the call and the outcome of the promise it
  returns. A throw inside the \<^verbatim>\<open>try\<close> happens before any write has succeeded.\<close>

definition processFile ::
  "User \<Rightarrow> file_env \<Rightarrow> localStorage \<Rightarrow> FileUploadState
     \<Rightarrow> localStorage \<times> (error + FileUploadState)" where
  "processFile user env st fileState =
     (case processFile_try user env st fileState of
        Inr (st', result) \<Rightarrow> (st', Inr result)
      | Inl e \<Rightarrow>
          (st, Inr (fileState\<lparr>status := StatusError,
                     error := Some (or_else (message e)
                       ''Failed to analyze due to an unexpected error.'')\<rparr>)))"

text \<open>The updater of the first \<^verbatim>\<open>setFiles\<close> of \<^verbatim>\<open>handleAnalyzeAll\<close>, on one entry.\<close>

definition mark_processing :: "FileUploadState \<Rightarrow> FileUploadState" where
  "mark_processing f =
     (if status f = Pending \<or> status f = StatusError
      then f\<lparr>status := Processing, error := None\<rparr>
      else f)"

definition filesToProcess :: "FileUploadState list \<Rightarrow> (nat \<times> FileUploadState) list" where
  "filesToProcess fs = filter (\<lambda>item. status (snd item) \<noteq> Success) (enumerate 0 fs)"

text \<open>The updater of the second \<^verbatim>\<open>setFiles\<close>: \<^verbatim>\<open>next[index] = result\<close> for every
  result, in order.\<close>

definition apply_results ::
  "FileUploadState list \<Rightarrow> (nat \<times> FileUploadState) list \<Rightarrow> FileUploadState list" where
  "apply_results prev results = fold (\<lambda>(index, result) next. next[index := result]) results prev"

text \<open>The navigation logic: the arguments \<^verbatim>\<open>onUploadComplete\<close> is called with.\<close>

definition navigation ::
  "FileUploadState list \<Rightarrow> (nat \<times> FileUploadState) list \<Rightarrow> Contract list" where
  "navigation fs results =
     (if length fs = 1 \<and> length results = 1
      then (case results of
              (index, result) # rest \<Rightarrow>
                (if status result = Success
                 then (case contract result of Some c \<Rightarrow> [c] | None \<Rightarrow> [])
                 else [])
            | [] \<Rightarrow> [])
      else [])"

text \<open>\<^verbatim>\<open>Promise.all\<close> on settled promises: the first rejection, or all the values.\<close>

fun promise_all :: "(error + 'a) list \<Rightarrow> error + 'a list" where
  "promise_all [] = Inr []"
| "promise_all (Inl e # ps) = Inl e"
| "promise_all (Inr v # ps) = (case promise_all ps of Inl e \<Rightarrow> Inl e | Inr vs \<Rightarrow> Inr (v # vs))"

text \<open>
  \<^verbatim>\<open>handleAnalyzeAll\<close> as a transition system. The handler runs between awaits without
  interruption; the launched calls of \<^verbatim>\<open>processFile\<close> settle in any order while the
  handler waits at \<^verbatim>\<open>await Promise.all(promises)\<close>. The state holds the React state
  \<^verbatim>\<open>files\<close> as the next updater would receive it (\<open>ui\<close>), the browser storage, the
  position of the handler, one slot per launched promise (\<open>None\<close> while pending), the
  value of \<^verbatim>\<open>results\<close> and the arguments \<^verbatim>\<open>onUploadComplete\<close> has been called
  with. The parameter \<open>fs\<close> is the \<^verbatim>\<open>files\<close> of the render the handler closes over;
  \<open>env k\<close> is what the \<open>k\<close>-th launched call takes from its surroundings. Nothing else
  updates the state while the handler runs, so every index written by the second
  updater is in range. The first \<^verbatim>\<open>setFiles\<close> is taken to update the list when it is
  called. A launched call settles in one step, on the storage as it is at that moment:
  \<^verbatim>\<open>saveContract\<close> and \<^verbatim>\<open>saveRecentAnalysis\<close> each run without interruption in the
  source, and the gap between them, where another call may write, is not modelled; the
  entry a call resolves to depends on the storage only through the success of its own
  \<^verbatim>\<open>saveContract\<close>.
\<close>

datatype pc = AtMark | AtLaunch | Awaiting | AtApply | AtNavigate | Finished | Thrown

record handler =
  ui :: "FileUploadState list"
  store :: localStorage
  pc :: pc
  promises :: "(error + nat \<times> FileUploadState) option list"
  results :: "(nat \<times> FileUploadState) list"
  completed :: "Contract list"

definition start :: "FileUploadState list \<Rightarrow> localStorage \<Rightarrow> handler" where
  "start fs st =
     \<lparr>ui = fs, store = st, pc = AtMark, promises = [], results = [], completed = []\<rparr>"

inductive step ::
  "User \<Rightarrow> FileUploadState list \<Rightarrow> (nat \<Rightarrow> file_env) \<Rightarrow> handler \<Rightarrow> handler \<Rightarrow> bool"
  for user fs env where
  mark:
    "pc s = AtMark \<Longrightarrow>
     step user fs env s (s\<lparr>ui := map mark_processing (ui s), pc := AtLaunch\<rparr>)"
| launch:
    "pc s = AtLaunch \<Longrightarrow>
     step user fs env s
       (s\<lparr>promises := map (\<lambda>item. None) (filesToProcess fs), pc := Awaiting\<rparr>)"
| settle:
    "pc s = Awaiting \<or> pc s = Thrown \<Longrightarrow> k < length (promises s) \<Longrightarrow>
     promises s ! k = None \<Longrightarrow>
     processFile user (env k) (store s) (snd (filesToProcess fs ! k)) = (st', outcome) \<Longrightarrow>
     step user fs env s
       (s\<lparr>store := st',
          promises := (promises s)
            [k := Some (case outcome of
                          Inl e \<Rightarrow> Inl e
                        | Inr result \<Rightarrow> Inr (fst (filesToProcess fs ! k), result))]\<rparr>)"
| resume:
    "pc s = Awaiting \<Longrightarrow> those (promises s) = Some settled \<Longrightarrow>
     promise_all settled = Inr rs \<Longrightarrow>
     step user fs env s (s\<lparr>results := rs, pc := AtApply\<rparr>)"
| reject:
    "pc s = Awaiting \<Longrightarrow> k < length (promises s) \<Longrightarrow> promises s ! k = Some (Inl e) \<Longrightarrow>
     step user fs env s (s\<lparr>pc := Thrown\<rparr>)"
| apply_updater:
    "pc s = AtApply \<Longrightarrow>
     step user fs env s (s\<lparr>ui := apply_results (ui s) (results s), pc := AtNavigate\<rparr>)"
| navigate:
    "pc s = AtNavigate \<Longrightarrow>
     step user fs env s
       (s\<lparr>completed := completed s @ navigation fs (results s), pc := Finished\<rparr>)"

text \<open>\<open>r\<close> is what \<^verbatim>\<open>processFile\<close> resolves to for the entry \<open>f\<close> in the
  surroundings \<open>e\<close>, on some storage.\<close>

definition outcome_of :: "User \<Rightarrow> file_env \<Rightarrow> FileUploadState \<Rightarrow> FileUploadState \<Rightarrow> bool" where
  "outcome_of user e f r \<longleftrightarrow> (\<exists>st. snd (processFile user e st f) = Inr r)"

text \<open>The number of steps the handler and its promises can still take.\<close>

definition steps_left :: "FileUploadState list \<Rightarrow> handler \<Rightarrow> nat" where
  "steps_left fs s =
     (let pending = length (filter (\<lambda>p. p = None) (promises s))
      in case pc s of
           AtMark \<Rightarrow> length (filesToProcess fs) + 5
         | AtLaunch \<Rightarrow> length (filesToProcess fs) + 4
         | Awaiting \<Rightarrow> pending + 3
         | AtApply \<Rightarrow> 2
         | AtNavigate \<Rightarrow> 1
         | Finished \<Rightarrow> 0
         | Thrown \<Rightarrow> pending)"

text \<open>
  What holds in every state the handler reaches: the handler never throws; the displayed
  list is the original one before the first updater, the marked one until the second
  updater, and the marked one with the results written in afterwards; no promise
  exists before the launch; a settled promise holds the index of its entry and an
  outcome of \<^verbatim>\<open>processFile\<close> on that entry; once the handler is past the await,
  every promise is fulfilled and \<^verbatim>\<open>results\<close> holds their values; the callback has
  been called only by the navigation logic.
\<close>

definition handler_inv ::
  "User \<Rightarrow> FileUploadState list \<Rightarrow> (nat \<Rightarrow> file_env) \<Rightarrow> handler \<Rightarrow> bool" where
  "handler_inv user fs env s \<longleftrightarrow>
     pc s \<noteq> Thrown \<and>
     (pc s = AtMark \<longrightarrow> ui s = fs) \<and>
     (pc s = AtLaunch \<or> pc s = Awaiting \<or> pc s = AtApply \<longrightarrow>
        ui s = map mark_processing fs) \<and>
     (pc s = AtMark \<or> pc s = AtLaunch \<longrightarrow> promises s = []) \<and>
     (pc s = Awaiting \<longrightarrow> length (promises s) = length (filesToProcess fs)) \<and>
     (\<forall>k<length (promises s).
        promises s ! k = None \<or>
        (\<exists>r. promises s ! k = Some (Inr (fst (filesToProcess fs ! k), r)) \<and>
             outcome_of user (env k) (snd (filesToProcess fs ! k)) r)) \<and>
     (pc s = AtApply \<or> pc s = AtNavigate \<or> pc s = Finished \<longrightarrow>
        length (results s) = length (filesToProcess fs) \<and>
        length (promises s) = length (filesToProcess fs) \<and>
        (\<forall>k<length (results s).
           promises s ! k = Some (Inr (results s ! k)) \<and>
           (\<exists>r. results s ! k = (fst (filesToProcess fs ! k), r) \<and>
                outcome_of user (env k) (snd (filesToProcess fs ! k)) r))) \<and>
     (pc s = AtNavigate \<or> pc s = Finished \<longrightarrow>
        ui s = apply_results (map mark_processing fs) (results s)) \<and>
     (pc s = Finished \<longrightarrow> completed s = navigation fs (results s)) \<and>
     (pc s \<noteq> Finished \<longrightarrow> completed s = [])"

section \<open>Sample inputs\<close>


definition full_store :: localStorage where
  "full_store =
     \<lparr>items = (\<lambda>k. None), refuses = (\<lambda>k v. Some (new_Error ''QuotaExceededError''))\<rparr>"

definition sample_analysis :: ContractAnalysis where
  "sample_analysis =
     \<lparr>summary = ''Lease'', overallRisk = LOW, riskScore = Some (Finite 10), clauses = [],
      fullText = Some ''text''\<rparr>"

definition sample_contract :: Contract where
  "sample_contract =
     \<lparr>contract_id = ''c1'', userId = ''u1'', fileName = ''a.pdf'', uploadDate = Finite 5,
      contract_status = Analyzed, analysis = Some sample_analysis, fileData = Some ''QQ=='',
      mimeType = Some ''application/pdf''\<rparr>"


definition sample_recent :: RecentAnalysis where
  "sample_recent =
     \<lparr>ra_id = ''c1'', ra_name = ''a.pdf'', createdAt = ''1970'', sourceType = SourceFile,
      ra_fileName = Some ''a.pdf'', rawText = ''text'', ra_riskScore = Finite 10,
      riskSummary = ''Low'', ra_summary = [''Lease''], ra_clauses = []\<rparr>"







text \<open>A storage with room for \<open>sample_contract\<close> and no other contract list.\<close>

definition small_store :: localStorage where
  "small_store =
     \<lparr>items = (\<lambda>k. None),
      refuses = (\<lambda>k v. if k = CONTRACTS \<and> v \<noteq> stringify (JArr [Contract_obj sample_contract])
                       then Some (new_Error ''QuotaExceededError'') else None)\<rparr>"



definition pdf_file :: File where
  "pdf_file = \<lparr>file_name = ''a.pdf'', file_type = ''application/pdf'', file_size = 20971520\<rparr>"

definition sample_user :: User where
  "sample_user = \<lparr>user_id = ''u1'', email = ''u1@example.org'', user_name = ''U''\<rparr>"

text \<open>A backend that answers with a document, one that rejects with a rate-limit error,
  and a \<^verbatim>\<open>JSON.parse\<close> that reads the answer as \<open>sample_analysis\<close>.\<close>

definition ok_backend :: backend where
  "ok_backend = (\<lambda>r. Inr (Some ''{}''))"

definition busy_backend :: backend where
  "busy_backend = (\<lambda>r. Inl (Raised (MsgString ''429 Too Many Requests'')))"

definition ok_parse :: "string \<Rightarrow> ContractAnalysis option" where
  "ok_parse t = (if t = ''{}'' then Some sample_analysis else None)"

definition sample_env :: file_env where
  "sample_env =
     \<lparr>reader_result = Some ''data:application/pdf;base64,QQ=='',
      analyze = (\<lambda>d m. snd (analyzeContract ''k'' ok_backend ok_parse d m)),
      generateId = ''c1'', Date_now = 5, toISOString = ''1970''\<rparr>"

definition busy_env :: file_env where
  "busy_env = sample_env\<lparr>analyze := (\<lambda>d m. snd (analyzeContract ''k'' busy_backend ok_parse d m))\<rparr>"

text \<open>Surroundings in which the file cannot be read, and in which the next id is
  another one.\<close>

definition unreadable_env :: file_env where
  "unreadable_env = sample_env\<lparr>reader_result := None\<rparr>"

definition late_env :: file_env where
  "late_env = sample_env\<lparr>generateId := ''c2''\<rparr>"

definition pdf_upload :: FileUploadState where
  "pdf_upload = \<lparr>file' = pdf_file, status = Pending, error = None, contract = None\<rparr>"

definition failed_upload :: FileUploadState where
  "failed_upload = pdf_upload\<lparr>status := StatusError, error := Some ''old''\<rparr>"

text \<open>A batch of four entries: the first cannot be read, the analysis of the second is
  refused by the backend, the third is analysed and saved, the fourth is analysed and, on \<open>small_store\<close>,
  not saved.\<close>

definition batch :: "FileUploadState list" where
  "batch = [pdf_upload, pdf_upload, failed_upload, pdf_upload]"

definition batch_env :: "nat \<Rightarrow> file_env" where
  "batch_env k =
     (if k = 0 then unreadable_env else if k = 1 then busy_env
      else if k = 2 then sample_env else late_env)"

section \<open>Properties of the storage service\<close>

lemma serialized_idem: "serialized (serialized v) = serialized v"
  by (induction v rule: serialized.induct) (auto split: number.splits)

lemma serialized_exact_number: "exact_number n \<Longrightarrow> serialized (JNum n) = JNum n"
  by (cases n) simp_all

lemma serialized_QAPair:
  assumes "exact_QAPair q"
  shows "serialized (QAPair_obj q) = QAPair_obj q"
proof -
  from assms have "exact_number (timestamp q)" by (simp add: exact_QAPair_def)
  then have "serialized (JNum (timestamp q)) = JNum (timestamp q)"
    by (rule serialized_exact_number)
  then show ?thesis by (simp add: QAPair_obj_def del: serialized.simps(3))
qed

lemma serialized_Clause:
  assumes "exact_Clause c"
  shows "serialized (Clause_obj c) = Clause_obj c"
proof (cases "conversationHistory c")
  case None
  then show ?thesis by (simp add: Clause_obj_def opt_entry_def)
next
  case (Some h)
  have "serialized (QAPair_obj x) = QAPair_obj x" if "x \<in> set h" for x
  proof -
    from assms Some that have "exact_QAPair x" by (simp add: exact_Clause_def list_all_iff)
    then show ?thesis by (rule serialized_QAPair)
  qed
  with Some show ?thesis by (simp add: Clause_obj_def opt_entry_def)
qed

lemma serialized_ContractAnalysis:
  assumes "exact_ContractAnalysis a"
  shows "serialized (ContractAnalysis_obj a) = ContractAnalysis_obj a"
proof -
  have cs: "serialized (Clause_obj x) = Clause_obj x" if "x \<in> set (clauses a)" for x
  proof -
    from assms that have "exact_Clause x" by (simp add: exact_ContractAnalysis_def list_all_iff)
    then show ?thesis by (rule serialized_Clause)
  qed
  have n: "serialized (JNum n) = JNum n" if "riskScore a = Some n" for n
  proof -
    from assms that have "exact_number n" by (simp add: exact_ContractAnalysis_def)
    then show ?thesis by (rule serialized_exact_number)
  qed
  show ?thesis
    by (cases "riskScore a"; cases "fullText a")
       (simp_all add: ContractAnalysis_obj_def opt_entry_def cs n del: serialized.simps(3))
qed

lemma serialized_Contract:
  assumes "exact_Contract c"
  shows "serialized (Contract_obj c) = Contract_obj c"
proof -
  from assms have "exact_number (uploadDate c)" by (simp add: exact_Contract_def)
  then have u: "serialized (JNum (uploadDate c)) = JNum (uploadDate c)"
    by (rule serialized_exact_number)
  have a: "serialized (ContractAnalysis_obj a) = ContractAnalysis_obj a"
    if "analysis c = Some a" for a
  proof -
    from assms that have "exact_ContractAnalysis a" by (simp add: exact_Contract_def)
    then show ?thesis by (rule serialized_ContractAnalysis)
  qed
  show ?thesis
    by (cases "analysis c"; cases "fileData c"; cases "mimeType c")
       (simp_all add: Contract_obj_def opt_entry_def u a del: serialized.simps(3))
qed









lemma member_is_object:
  "v \<noteq> JNull \<Longrightarrow> member_is k s v = Inr (get_prop k v = Some (JStr s))"
  by (simp add: member_is_def member_def)







lemma get_prop_Contract_obj:
  "get_prop ''id'' (Contract_obj c) = Some (JStr (contract_id c))"
  "get_prop ''userId'' (Contract_obj c) = Some (JStr (userId c))"
  "Contract_obj c \<noteq> JNull"
  by (simp_all add: Contract_obj_def)





lemma exact_samples: "exact_Contract sample_contract" "exact_RecentAnalysis sample_recent"
  by (simp_all add: exact_Contract_def exact_ContractAnalysis_def exact_RecentAnalysis_def
      sample_contract_def sample_analysis_def sample_recent_def)




















section \<open>Properties of the comparison view\<close>

lemma find_first_None: "find_first P xs = None \<longleftrightarrow> (\<forall>x\<in>set xs. \<not> P x)"
  by (induction xs) auto

lemma find_first_Some:
  "find_first P xs = Some x \<longleftrightarrow>
     (\<exists>pre post. xs = pre @ x # post \<and> P x \<and> (\<forall>y\<in>set pre. \<not> P y))"
proof (induction xs)
  case Nil
  then show ?case by simp
next
  case (Cons a xs)
  show ?case
  proof (cases "P a")
    case True
    then show ?thesis
      by (auto simp: Cons_eq_append_conv)
  next
    case False
    then show ?thesis
      using Cons.IH by (auto simp: Cons_eq_append_conv) (metis set_ConsD)+
  qed
qed

text \<open>
  Claim C9. When no input contract has the recommended id, the displayed contract is
  the first contract of the input list (\<^verbatim>\<open>undefined\<close> for an empty list: the
  resolution itself has no failing branch). When some contract has the recommended id,
  the first such contract of the list is selected.
\<close>

theorem winner_resolution:
  "((\<forall>c\<in>set contracts. contract_id c \<noteq> recommendedId cmp) \<longrightarrow>
      winner contracts cmp = (case contracts of [] \<Rightarrow> None | c # rest \<Rightarrow> Some c)) \<and>
   ((\<exists>c\<in>set contracts. contract_id c = recommendedId cmp) \<longrightarrow>
      (\<exists>pre c post. contracts = pre @ c # post \<and> contract_id c = recommendedId cmp \<and>
         (\<forall>x\<in>set pre. contract_id x \<noteq> recommendedId cmp) \<and>
         winner contracts cmp = Some c))"
proof (intro conjI impI)
  assume "\<forall>c\<in>set contracts. contract_id c \<noteq> recommendedId cmp"
  then have "find_first (\<lambda>c. contract_id c = recommendedId cmp) contracts = None"
    by (simp add: find_first_None)
  then show "winner contracts cmp = (case contracts of [] \<Rightarrow> None | c # rest \<Rightarrow> Some c)"
    by (simp add: winner_def)
next
  assume "\<exists>c\<in>set contracts. contract_id c = recommendedId cmp"
  then obtain c where c: "find_first (\<lambda>c. contract_id c = recommendedId cmp) contracts = Some c"
    using find_first_None[of "\<lambda>c. contract_id c = recommendedId cmp" contracts] by auto
  then have "winner contracts cmp = Some c" by (simp add: winner_def)
  with c show "\<exists>pre c post. contracts = pre @ c # post \<and> contract_id c = recommendedId cmp \<and>
         (\<forall>x\<in>set pre. contract_id x \<noteq> recommendedId cmp) \<and>
         winner contracts cmp = Some c"
    unfolding find_first_Some by blast
qed

theorem winner_resolution_witness:
  "winner [sample_contract, sample_contract\<lparr>contract_id := ''c2''\<rparr>]
      \<lparr>recommendedId = ''zz'', reasoning = [], keyDifferences = []\<rparr> = Some sample_contract \<and>
   winner [sample_contract, sample_contract\<lparr>contract_id := ''c2''\<rparr>]
      \<lparr>recommendedId = ''c2'', reasoning = [], keyDifferences = []\<rparr> =
     Some (sample_contract\<lparr>contract_id := ''c2''\<rparr>)"
  using winner_resolution[of "[sample_contract, sample_contract\<lparr>contract_id := ''c2''\<rparr>]"
      "\<lparr>recommendedId = ''zz'', reasoning = [], keyDifferences = []\<rparr>"]
  by (simp add: sample_contract_def winner_def)

section \<open>Properties of the upload component\<close>













text \<open>
  The four ways a call of \<^verbatim>\<open>processFile\<close> ends: the file cannot be read; the
  analysis is rejected; the analysis succeeds and \<^verbatim>\<open>saveContract\<close> throws; the
  analysis succeeds and the contract is saved. In the first three the storage is unchanged
  and the entry carries no new contract.
\<close>

lemma processFile_read_failure:
  assumes "reader_result env = None"
  shows "processFile user env st f =
           (st, Inr (f\<lparr>status := StatusError, error := Some ''Failed to read file''\<rparr>))"
  using assms
  by (simp add: processFile_def processFile_try_def new_Error_def or_else_def)

lemma processFile_analysis_failure:
  assumes "reader_result env = Some url"
    and "analyze env (nth_opt (js_split (CHR '','') url) 1) (file_type (file' f)) = Inl e"
  shows "processFile user env st f =
           (st, Inr (f\<lparr>status := StatusError,
                      error := Some (or_else (message e)
                        ''Failed to analyze due to an unexpected error.'')\<rparr>))"
  using assms
  by (simp add: processFile_def processFile_try_def Let_def)

lemma processFile_save_failure:
  assumes "reader_result env = Some url"
    and "analyze env (nth_opt (js_split (CHR '','') url) 1) (file_type (file' f)) = Inr an"
    and "saveContract st (newContract user env f (nth_opt (js_split (CHR '','') url) 1) an)
           = Inl e"
  shows "processFile user env st f =
           (st, Inr (f\<lparr>status := StatusError,
                      error := Some (''Analyzed successfully but failed to save to ''
                                     @ ''browser storage. Check available disk space.'')\<rparr>))"
  using assms
  by (simp add: processFile_def processFile_try_def Let_def new_Error_def or_else_def)

lemma processFile_saved:
  assumes "reader_result env = Some url"
    and "analyze env (nth_opt (js_split (CHR '','') url) 1) (file_type (file' f)) = Inr an"
    and "saveContract st (newContract user env f (nth_opt (js_split (CHR '','') url) 1) an)
           = Inr st1"
  shows "processFile user env st f =
           (saveRecentAnalysis st1
              (recentAnalysis env
                 (newContract user env f (nth_opt (js_split (CHR '','') url) 1) an) an),
            Inr (f\<lparr>status := Success,
                      contract := Some (newContract user env f
                                          (nth_opt (js_split (CHR '','') url) 1) an)\<rparr>))"
  using assms
  by (simp add: processFile_def processFile_try_def Let_def)

text \<open>The sample surroundings: the data after the comma of the data URL, the answers of
  \<^verbatim>\<open>analyzeContract\<close> on the two sample backends, and the objects built from a
  successful analysis.\<close>

lemma sample_base64:
  "nth_opt (js_split (CHR '','') ''data:application/pdf;base64,QQ=='') 1 = Some ''QQ==''"
  by (simp add: nth_opt_def)

lemma analyze_sample_env: "analyze sample_env d m = Inr sample_analysis"
  by (simp add: sample_env_def analyzeContract_def ok_backend_def parseJSONResponse_def
      ok_parse_def trim_def is_space_def)

lemma analyze_busy_env:
  "analyze busy_env d m =
     Inl (new_Error ''AI usage limit exceeded. Please try again in a few moments.'')"
  by (simp add: busy_env_def sample_env_def analyzeContract_def busy_backend_def
      handleGenAIError_def toLowerCase_def toLowerCase_char_def)

lemma newContract_sample:
  "file' f = pdf_file \<Longrightarrow>
   newContract sample_user sample_env f (Some ''QQ=='') sample_analysis = sample_contract"
  by (simp add: newContract_def sample_env_def sample_user_def pdf_file_def sample_contract_def)

lemma recentAnalysis_sample:
  "recentAnalysis sample_env sample_contract sample_analysis = sample_recent"
  by (simp add: recentAnalysis_def sample_env_def sample_contract_def sample_analysis_def
      sample_recent_def or_else_def)

lemma saveContract_full_store: "saveContract full_store c = Inl (new_Error ''QuotaExceededError'')"
  by (simp add: saveContract_def loadContracts_def parse_or_empty_def getItem_def
      setItem_def full_store_def as_array_def)

text \<open>
  Claim C4, evaluated at a file whose analysis succeeds on a storage that refuses the
  write: \<^verbatim>\<open>processFile\<close> resolves to the entry with status \<^verbatim>\<open>error\<close> and the message
  "Analyzed successfully but failed to save ...", and the entry it returns carries no
  contract: the analysis that was computed is not part of what the caller receives.
\<close>

theorem processFile_save_failure_drops_analysis:
  "analyze sample_env (Some ''QQ=='') ''application/pdf'' = Inr sample_analysis \<and>
   processFile sample_user sample_env full_store pdf_upload =
     (full_store,
      Inr \<lparr>file' = pdf_file, status = StatusError,
           error = Some (''Analyzed successfully but failed to save to ''
                         @ ''browser storage. Check available disk space.''),
           contract = None\<rparr>)"
proof -
  have a: "analyze sample_env (Some ''QQ=='') ''application/pdf'' = Inr sample_analysis"
    by (rule analyze_sample_env)
  have r: "reader_result sample_env = Some ''data:application/pdf;base64,QQ==''"
    by (simp add: sample_env_def)
  have f: "file' pdf_upload = pdf_file" by (simp add: pdf_upload_def)
  have b: "processFile sample_user sample_env full_store pdf_upload =
     (full_store,
      Inr (pdf_upload\<lparr>status := StatusError,
             error := Some (''Analyzed successfully but failed to save to ''
                         @ ''browser storage. Check available disk space.'')\<rparr>))"
    by (rule processFile_save_failure[OF r analyze_sample_env saveContract_full_store])
  from a b show ?thesis by (simp add: pdf_upload_def)
qed

section \<open>Properties of the analysis client\<close>

lemma askClauseQuestion_resolves:
  "\<exists>answer. snd (askClauseQuestion key be ct q) = Inr answer"
  by (simp add: askClauseQuestion_def Let_def split: sum.splits)

lemma sendChatMessage_resolves:
  "\<exists>answer. snd (sendChatMessage key be h m ctx) = Inr answer"
  by (simp add: sendChatMessage_def Let_def split: sum.splits)

text \<open>
  Claim C6. \<^verbatim>\<open>askClauseQuestion\<close> and \<^verbatim>\<open>sendChatMessage\<close> resolve to a string for
  every key, backend and input; when the backend call rejects, whatever it rejects with,
  the result is the fixed apology string of the function.
\<close>

theorem chat_operations_never_raise:
  "(\<exists>answer. snd (askClauseQuestion key be ct q) = Inr answer) \<and>
   (\<exists>answer. snd (sendChatMessage key be h m ctx) = Inr answer) \<and>
   (key \<noteq> [] \<and> be (ClauseQuestion ct q) = Inl e \<longrightarrow>
      snd (askClauseQuestion key be ct q) =
        Inr ''Sorry, I couldn't answer that right now due to a connection issue.'') \<and>
   (key \<noteq> [] \<and>
    be (Chat (map (\<lambda>msg. (chat_role msg, chat_text msg)) h @ [(RoleUser, m)]) ctx) = Inl e \<longrightarrow>
      snd (sendChatMessage key be h m ctx) =
        Inr ''Sorry, I'm having trouble connecting right now. Please try again.'')"
  using askClauseQuestion_resolves[of key be ct q] sendChatMessage_resolves[of key be h m ctx]
  by (simp add: askClauseQuestion_def sendChatMessage_def Let_def)

theorem chat_operations_never_raise_witness:
  "snd (askClauseQuestion ''k'' (\<lambda>r. Inl Nullish) ''c'' ''q'') =
     Inr ''Sorry, I couldn't answer that right now due to a connection issue.'' \<and>
   snd (sendChatMessage ''k'' (\<lambda>r. Inl Nullish) [] ''hi'' []) =
     Inr ''Sorry, I'm having trouble connecting right now. Please try again.''"
  using chat_operations_never_raise[of "''k''" "\<lambda>r. Inl Nullish"
      "''c''" "''q''" "[]" "''hi''" "[]" Nullish]
  by simp

text \<open>
  \<^verbatim>\<open>handleGenAIError\<close> against the taxonomy: on a raw error with a non-empty string
  message it throws the message of the first kind one of whose substrings the lower-cased
  message contains, and "Processing failed: " followed by the raw message when there is
  no such kind.
\<close>

lemma handleGenAIError_taxonomy:
  assumes "m \<noteq> []"
  shows "handleGenAIError (Raised (MsgString m)) =
           new_Error (case taxonomy_kind m of
                        Some k \<Rightarrow> kind_message k
                      | None \<Rightarrow> ''Processing failed: '' @ m)"
  using assms unfolding handleGenAIError_def taxonomy_kind_def kind_matches_def Let_def
  by (simp del: append.simps str_includes.simps)

lemma taxonomy_kind_first:
  "taxonomy_kind m = Some k \<longleftrightarrow>
     kind_matches (toLowerCase m) k \<and>
     (\<forall>j \<in> set (takeWhile (\<lambda>j. j \<noteq> k)
          [Quota, Auth, PayloadTooLarge, ServiceUnavailable, SafetyBlock, MalformedResponse]).
        \<not> kind_matches (toLowerCase m) j)"
  unfolding taxonomy_kind_def
  by (cases k) auto

lemma handleGenAIError_other:
  "handleGenAIError (Raised (MsgString [])) =
     new_Error ''An unexpected error occurred during processing.''"
  "handleGenAIError (Raised NoMessage) =
     new_Error ''An unexpected error occurred during processing.''"
  "handleGenAIError (Raised MsgOther) = TypeError"
  "handleGenAIError Nullish = TypeError"
  by (simp_all add: handleGenAIError_def)

lemma handleGenAIError_parse_failure:
  "handleGenAIError (thrown_of
     (new_Error ''Failed to parse AI response. The model output was not valid JSON.''))
     = new_Error ''Received an invalid response format from AI. Please retry.''"
  by (simp add: handleGenAIError_def new_Error_def thrown_of_def toLowerCase_def
      toLowerCase_char_def)

lemma handleGenAIError_empty_response:
  "handleGenAIError (thrown_of (new_Error ''Empty response from AI service.''))
     = new_Error ''Processing failed: Empty response from AI service.''"
  by (simp add: handleGenAIError_def new_Error_def thrown_of_def toLowerCase_def
      toLowerCase_char_def)

lemma parseJSONResponse_errors:
  "parseJSONResponse parse resp = Inl e \<Longrightarrow>
     e = new_Error ''Empty response from AI service.'' \<or>
     e = new_Error ''Failed to parse AI response. The model output was not valid JSON.''"
  by (auto simp: parseJSONResponse_def Let_def split: option.splits if_splits)

text \<open>
  Claim C7, as amended. With a key present, \<^verbatim>\<open>compareContracts\<close> rejects whenever the
  backend call rejects or the response does not parse, and what it throws is what
  \<^verbatim>\<open>handleGenAIError\<close> throws on the raw error; a response that parses is returned.
  When the raw error has a non-empty string message, the message thrown is that of the
  first kind of the taxonomy, in the order quota, authentication, payload too large,
  service unavailable, safety block, malformed response, one of whose substrings the
  lower-cased raw message contains; when no kind matches it is "Processing failed: "
  followed by the raw message. When the raw error has no message or an empty one, it is
  the fixed unexpected-error message. When the raw error is \<^verbatim>\<open>null\<close> or
  \<^verbatim>\<open>undefined\<close>, or its message is a truthy value that is not a string,
  \<^verbatim>\<open>handleGenAIError\<close> itself fails and a \<^verbatim>\<open>TypeError\<close> of the engine is thrown. An
  empty response is thrown as "Processing failed: Empty response from AI service.", a
  response that is not JSON as the malformed-response message.
\<close>

theorem compareContracts_propagates:
  assumes "key \<noteq> []"
  shows
    "(be (Compare cs) = Inl t \<longrightarrow>
        compareContracts key be parse cs = ([Compare cs], Inl (handleGenAIError t))) \<and>
     (be (Compare cs) = Inr resp \<and> parseJSONResponse parse resp = Inl e \<longrightarrow>
        compareContracts key be parse cs = ([Compare cs], Inl (handleGenAIError (thrown_of e))) \<and>
        (resp = None \<or> resp = Some [] \<longrightarrow>
           handleGenAIError (thrown_of e) =
             new_Error ''Processing failed: Empty response from AI service.'') \<and>
        (resp \<noteq> None \<and> resp \<noteq> Some [] \<longrightarrow>
           handleGenAIError (thrown_of e) = new_Error (kind_message MalformedResponse))) \<and>
     (be (Compare cs) = Inr resp \<and> parseJSONResponse parse resp = Inr r \<longrightarrow>
        compareContracts key be parse cs = ([Compare cs], Inr r)) \<and>
     (m \<noteq> [] \<longrightarrow>
        handleGenAIError (Raised (MsgString m)) =
          new_Error (case taxonomy_kind m of
                       Some k \<Rightarrow> kind_message k
                     | None \<Rightarrow> ''Processing failed: '' @ m)) \<and>
     (taxonomy_kind m = Some k \<longleftrightarrow>
        kind_matches (toLowerCase m) k \<and>
        (\<forall>j \<in> set (takeWhile (\<lambda>j. j \<noteq> k)
             [Quota, Auth, PayloadTooLarge, ServiceUnavailable, SafetyBlock, MalformedResponse]).
           \<not> kind_matches (toLowerCase m) j)) \<and>
     handleGenAIError (Raised (MsgString [])) =
       new_Error ''An unexpected error occurred during processing.'' \<and>
     handleGenAIError (Raised NoMessage) =
       new_Error ''An unexpected error occurred during processing.'' \<and>
     handleGenAIError (Raised MsgOther) = TypeError \<and>
     handleGenAIError Nullish = TypeError"
proof (intro conjI impI)
  show "compareContracts key be parse cs = ([Compare cs], Inl (handleGenAIError t))"
    if "be (Compare cs) = Inl t"
    using that assms by (simp add: compareContracts_def)
  show "compareContracts key be parse cs = ([Compare cs], Inl (handleGenAIError (thrown_of e)))"
    if "be (Compare cs) = Inr resp \<and> parseJSONResponse parse resp = Inl e"
    using that assms by (simp add: compareContracts_def)
  show "handleGenAIError (thrown_of e) =
          new_Error ''Processing failed: Empty response from AI service.''"
    if "be (Compare cs) = Inr resp \<and> parseJSONResponse parse resp = Inl e"
      and "resp = None \<or> resp = Some []"
  proof -
    from that have "e = new_Error ''Empty response from AI service.''"
      by (auto simp: parseJSONResponse_def)
    then show ?thesis by (simp only: handleGenAIError_empty_response)
  qed
  show "handleGenAIError (thrown_of e) = new_Error (kind_message MalformedResponse)"
    if "be (Compare cs) = Inr resp \<and> parseJSONResponse parse resp = Inl e"
      and "resp \<noteq> None \<and> resp \<noteq> Some []"
  proof -
    from that have
      "e = new_Error ''Failed to parse AI response. The model output was not valid JSON.''"
      by (auto simp: parseJSONResponse_def Let_def split: option.splits if_splits)
    then show ?thesis by (simp only: handleGenAIError_parse_failure kind_message.simps)
  qed
  show "compareContracts key be parse cs = ([Compare cs], Inr r)"
    if "be (Compare cs) = Inr resp \<and> parseJSONResponse parse resp = Inr r"
    using that assms by (simp add: compareContracts_def)
  show "handleGenAIError (Raised (MsgString m)) =
          new_Error (case taxonomy_kind m of
                       Some k \<Rightarrow> kind_message k
                     | None \<Rightarrow> ''Processing failed: '' @ m)"
    if "m \<noteq> []"
    using that by (rule handleGenAIError_taxonomy)
  show "taxonomy_kind m = Some k \<longleftrightarrow>
        kind_matches (toLowerCase m) k \<and>
        (\<forall>j \<in> set (takeWhile (\<lambda>j. j \<noteq> k)
             [Quota, Auth, PayloadTooLarge, ServiceUnavailable, SafetyBlock, MalformedResponse]).
           \<not> kind_matches (toLowerCase m) j)"
    by (rule taxonomy_kind_first)
qed (rule handleGenAIError_other)+

lemma taxonomy_kind_samples:
  "taxonomy_kind ''429 Too Many Requests'' = Some Quota"
  "taxonomy_kind ''Quota exceeded for this key'' = Some Quota"
  "taxonomy_kind ''API key not valid'' = Some Auth"
  "taxonomy_kind ''Request entity too large'' = Some PayloadTooLarge"
  "taxonomy_kind ''The model is overloaded'' = Some ServiceUnavailable"
  "taxonomy_kind ''Blocked by SAFETY filter'' = Some SafetyBlock"
  "taxonomy_kind ''Unexpected token in JSON'' = Some MalformedResponse"
  "taxonomy_kind ''boom'' = None"
  by (simp_all add: taxonomy_kind_def kind_matches_def toLowerCase_def toLowerCase_char_def)

theorem compareContracts_propagates_witness:
  "compareContracts ''k'' busy_backend (\<lambda>t. None) [] =
     ([Compare []],
      Inl (new_Error ''AI usage limit exceeded. Please try again in a few moments.'')) \<and>
   compareContracts ''k'' (\<lambda>r. Inl (Raised (MsgString ''Quota exceeded for this key'')))
       (\<lambda>t. None) [] =
     ([Compare []],
      Inl (new_Error ''AI usage limit exceeded. Please try again in a few moments.'')) \<and>
   compareContracts ''k'' (\<lambda>r. Inl (Raised (MsgString ''API key not valid''))) (\<lambda>t. None) [] =
     ([Compare []],
      Inl (new_Error ''Authentication failed. Please check the system configuration.'')) \<and>
   compareContracts ''k'' (\<lambda>r. Inl (Raised (MsgString ''Request entity too large'')))
       (\<lambda>t. None) [] =
     ([Compare []], Inl (new_Error ''The document is too large for the AI to process.'')) \<and>
   compareContracts ''k'' (\<lambda>r. Inl (Raised (MsgString ''The model is overloaded'')))
       (\<lambda>t. None) [] =
     ([Compare []], Inl (new_Error ''AI service is temporarily unavailable. Please retry.'')) \<and>
   compareContracts ''k'' (\<lambda>r. Inl (Raised (MsgString ''Blocked by SAFETY filter'')))
       (\<lambda>t. None) [] =
     ([Compare []],
      Inl (new_Error
        ''The document was flagged by safety settings and could not be analyzed.'')) \<and>
   compareContracts ''k'' (\<lambda>r. Inl (Raised (MsgString ''Unexpected token in JSON'')))
       (\<lambda>t. None) [] =
     ([Compare []],
      Inl (new_Error ''Received an invalid response format from AI. Please retry.'')) \<and>
   compareContracts ''k'' (\<lambda>r. Inr (Some ''not json'')) (\<lambda>t. None) [] =
     ([Compare []],
      Inl (new_Error ''Received an invalid response format from AI. Please retry.'')) \<and>
   compareContracts ''k'' (\<lambda>r. Inr None) (\<lambda>t. None) [] =
     ([Compare []],
      Inl (new_Error ''Processing failed: Empty response from AI service.''))"
proof -
  have k: "''k'' \<noteq> []" by simp
  have w: "compareContracts ''k'' (\<lambda>r. Inl (Raised (MsgString m))) (\<lambda>t. None) [] =
             ([Compare []],
              Inl (new_Error (case taxonomy_kind m of
                                Some k \<Rightarrow> kind_message k
                              | None \<Rightarrow> ''Processing failed: '' @ m)))"
    if "m \<noteq> []" for m
    using compareContracts_propagates[OF k,
        where be = "\<lambda>r. Inl (Raised (MsgString m))" and cs = "[]"
          and t = "Raised (MsgString m)" and m = m and parse = "\<lambda>t. None"] that
    by simp
  have p: "parseJSONResponse (\<lambda>t. None) (Some ''not json'') =
     (Inl (new_Error ''Failed to parse AI response. The model output was not valid JSON.'')
        :: error + ComparisonResult)"
    "parseJSONResponse (\<lambda>t. None) None =
     (Inl (new_Error ''Empty response from AI service.'') :: error + ComparisonResult)"
    by (simp_all add: parseJSONResponse_def)
  note a = compareContracts_propagates[OF k,
      where be = "\<lambda>r. Inr (Some ''not json'')" and cs = "[]"
        and e = "new_Error ''Failed to parse AI response. The model output was not valid JSON.''"
        and resp = "Some ''not json''" and parse = "\<lambda>t. None"]
  note b = compareContracts_propagates[OF k,
      where be = "\<lambda>r. Inr None" and cs = "[]"
        and e = "new_Error ''Empty response from AI service.''"
        and resp = None and parse = "\<lambda>t. None"]
  have 1: "compareContracts ''k'' (\<lambda>r. Inr (Some ''not json'')) (\<lambda>t. None) [] =
     ([Compare []],
      Inl (new_Error ''Received an invalid response format from AI. Please retry.''))"
    using conjunct1[OF conjunct2[OF a]] p(1) by simp
  have 2: "compareContracts ''k'' (\<lambda>r. Inr None) (\<lambda>t. None) [] =
     ([Compare []],
      Inl (new_Error ''Processing failed: Empty response from AI service.''))"
    using conjunct1[OF conjunct2[OF b]] p(2) by simp
  show ?thesis
    unfolding busy_backend_def
    using w[of "''429 Too Many Requests''"] w[of "''Quota exceeded for this key''"]
      w[of "''API key not valid''"] w[of "''Request entity too large''"]
      w[of "''The model is overloaded''"] w[of "''Blocked by SAFETY filter''"]
      w[of "''Unexpected token in JSON''"] 1 2
    by (simp add: taxonomy_kind_samples)
qed

text \<open>
  The claim C7 as stated fails for a backend that rejects with \<^verbatim>\<open>null\<close>: what
  \<^verbatim>\<open>compareContracts\<close> throws is the \<^verbatim>\<open>TypeError\<close> of reading
  \<^verbatim>\<open>error.message\<close>, which no substring test chose. And for a raw message that matches
  no kind the message thrown is "Processing failed: " followed by the raw message, not the
  unexpected-error message of the function.
\<close>

theorem compareContracts_propagates_counterexample:
  "compareContracts ''k'' (\<lambda>r. Inl Nullish) (\<lambda>t. None) [] = ([Compare []], Inl TypeError) \<and>
   taxonomy_kind ''boom'' = None \<and>
   compareContracts ''k'' (\<lambda>r. Inl (Raised (MsgString ''boom''))) (\<lambda>t. None) [] =
     ([Compare []], Inl (new_Error ''Processing failed: boom'')) \<and>
   new_Error ''Processing failed: boom'' \<noteq>
     new_Error ''An unexpected error occurred during processing.''"
  by (simp add: compareContracts_def handleGenAIError_def taxonomy_kind_samples new_Error_def
      toLowerCase_def toLowerCase_char_def)

text \<open>
  Claim C10. With an empty API key, \<^verbatim>\<open>analyzeContract\<close> and \<^verbatim>\<open>compareContracts\<close>
  reject with their missing-key errors and \<^verbatim>\<open>askClauseQuestion\<close> and
  \<^verbatim>\<open>sendChatMessage\<close> resolve to the string "API Key missing."; none of the four issues
  a backend request. With a key present and a backend that answers "API Key missing.",
  the two chat operations resolve to the same string.
\<close>

theorem missing_api_key:
  "analyzeContract [] be parse d mt =
     ([], Inl (new_Error ''API Key is missing. Please set process.env.API_KEY.'')) \<and>
   compareContracts [] be parse' cs = ([], Inl (new_Error ''API Key missing'')) \<and>
   askClauseQuestion [] be ct q = ([], Inr ''API Key missing.'') \<and>
   sendChatMessage [] be h m ctx = ([], Inr ''API Key missing.'') \<and>
   snd (askClauseQuestion (k # key) (\<lambda>r. Inr (Some ''API Key missing.'')) ct q) =
     Inr ''API Key missing.'' \<and>
   snd (sendChatMessage (k # key) (\<lambda>r. Inr (Some ''API Key missing.'')) h m ctx) =
     Inr ''API Key missing.''"
  by (simp add: analyzeContract_def compareContracts_def askClauseQuestion_def
      sendChatMessage_def or_else_def)

section \<open>Properties of the batch handler\<close>

lemma processFile_try_success:
  "processFile_try user e st f = Inr (st', r) \<Longrightarrow>
     status r = Success \<and> file' r = file' f \<and> error r = error f \<and> (\<exists>c. contract r = Some c)"
  by (auto simp: processFile_try_def Let_def split: option.splits sum.splits)

lemma processFile_resolves:
  "\<exists>st' r. processFile user e st f = (st', Inr r) \<and>
      (status r = Success \<or> status r = StatusError) \<and> file' r = file' f \<and>
      (status r = Success \<longrightarrow> (\<exists>c. contract r = Some c)) \<and>
      (status r = StatusError \<longrightarrow> error r \<noteq> None \<and> contract r = contract f \<and> st' = st)"
proof (cases "processFile_try user e st f")
  case (Inl err)
  then show ?thesis by (simp add: processFile_def)
next
  case (Inr p)
  obtain st' r where p: "p = (st', r)" by (cases p)
  with Inr processFile_try_success[of user e st f st' r] show ?thesis
    by (auto simp: processFile_def)
qed

lemma outcome_of_status:
  assumes "outcome_of user e f r"
  shows "(status r = Success \<or> status r = StatusError) \<and> file' r = file' f \<and>
         (status r = Success \<longrightarrow> (\<exists>c. contract r = Some c)) \<and>
         (status r = StatusError \<longrightarrow> error r \<noteq> None \<and> contract r = contract f)"
proof -
  from assms obtain st where st: "snd (processFile user e st f) = Inr r"
    by (auto simp: outcome_of_def)
  from processFile_resolves[of user e st f] obtain st' r' where
    p: "processFile user e st f = (st', Inr r')" and
    q: "(status r' = Success \<or> status r' = StatusError) \<and> file' r' = file' f \<and>
      (status r' = Success \<longrightarrow> (\<exists>c. contract r' = Some c)) \<and>
      (status r' = StatusError \<longrightarrow> error r' \<noteq> None \<and> contract r' = contract f \<and> st' = st)"
    by blast
  from p st have "r' = r" by simp
  with q show ?thesis by blast
qed

lemma outcome_of_analyzed:
  assumes "outcome_of user e f r"
  shows "case reader_result e of
           None \<Rightarrow> r = f\<lparr>status := StatusError, error := Some ''Failed to read file''\<rparr>
         | Some url \<Rightarrow>
             (case analyze e (nth_opt (js_split (CHR '','') url) 1) (file_type (file' f)) of
                Inl err \<Rightarrow>
                  r = f\<lparr>status := StatusError,
                        error := Some (or_else (message err)
                          ''Failed to analyze due to an unexpected error.'')\<rparr>
              | Inr an \<Rightarrow>
                  r = f\<lparr>status := Success,
                        contract := Some (newContract user e f
                                            (nth_opt (js_split (CHR '','') url) 1) an)\<rparr> \<or>
                  r = f\<lparr>status := StatusError,
                        error := Some (''Analyzed successfully but failed to save to ''
                                       @ ''browser storage. Check available disk space.'')\<rparr>)"
proof -
  from assms obtain st where st: "snd (processFile user e st f) = Inr r"
    by (auto simp: outcome_of_def)
  show ?thesis
  proof (cases "reader_result e")
    case None
    from st processFile_read_failure[OF None, of user st f] None show ?thesis by simp
  next
    case (Some url)
    let ?d = "nth_opt (js_split (CHR '','') url) 1"
    show ?thesis
    proof (cases "analyze e ?d (file_type (file' f))")
      case (Inl err)
      from st processFile_analysis_failure[OF Some Inl, of user st] Some Inl
      show ?thesis by simp
    next
      case (Inr an)
      show ?thesis
      proof (cases "saveContract st (newContract user e f ?d an)")
        case Inl2: (Inl x)
        from st processFile_save_failure[OF Some Inr Inl2] Some Inr show ?thesis by simp
      next
        case Inr2: (Inr st1)
        from st processFile_saved[OF Some Inr Inr2] Some Inr show ?thesis by simp
      qed
    qed
  qed
qed

lemma those_Some_nth:
  "those ps = Some xs \<Longrightarrow> length xs = length ps \<and> (\<forall>k<length ps. ps ! k = Some (xs ! k))"
proof (induction ps arbitrary: xs)
  case Nil
  then show ?case by simp
next
  case (Cons p ps)
  then show ?case
    by (auto split: option.splits simp: nth_Cons split: nat.splits)
qed

lemma promise_all_Inr_nth:
  "promise_all xs = Inr rs \<Longrightarrow> length rs = length xs \<and> (\<forall>k<length xs. xs ! k = Inr (rs ! k))"
proof (induction xs arbitrary: rs rule: promise_all.induct)
  case 1
  then show ?case by simp
next
  case (2 e ps)
  then show ?case by simp
next
  case (3 v ps)
  then show ?case
    by (auto split: sum.splits simp: nth_Cons split: nat.splits)
qed

lemma those_all_Some:
  "\<forall>k<length ps. ps ! k \<noteq> None \<Longrightarrow> \<exists>xs. those ps = Some xs"
proof (induction ps)
  case Nil
  then show ?case by simp
next
  case (Cons p ps)
  from Cons.prems have "(p # ps) ! 0 \<noteq> None" by blast
  then obtain v where p: "p = Some v" by auto
  have "ps ! k \<noteq> None" if "k < length ps" for k
    using Cons.prems[rule_format, of "Suc k"] that by simp
  then have "\<forall>k<length ps. ps ! k \<noteq> None" by blast
  from Cons.IH[OF this] p show ?case by auto
qed

lemma promise_all_all_Inr:
  "\<forall>k<length xs. \<exists>v. xs ! k = Inr v \<Longrightarrow> \<exists>rs. promise_all xs = Inr rs"
proof (induction xs)
  case Nil
  then show ?case by simp
next
  case (Cons x xs)
  from Cons.prems have "\<exists>v. (x # xs) ! 0 = Inr v" by blast
  then obtain v where x: "x = Inr v" by auto
  have "\<exists>v. xs ! k = Inr v" if "k < length xs" for k
    using Cons.prems[rule_format, of "Suc k"] that by simp
  then have "\<forall>k<length xs. \<exists>v. xs ! k = Inr v" by blast
  from Cons.IH[OF this] x show ?case by auto
qed

lemma set_filesToProcess:
  "(i, f) \<in> set (filesToProcess fs) \<longleftrightarrow> i < length fs \<and> f = fs ! i \<and> status f \<noteq> Success"
  by (auto simp: filesToProcess_def in_set_enumerate_eq)

lemma distinct_filesToProcess: "distinct (map fst (filesToProcess fs))"
  unfolding filesToProcess_def
  by (rule distinct_map_filter) simp

lemma nth_filesToProcess:
  assumes "k < length (filesToProcess fs)"
  shows "fst (filesToProcess fs ! k) < length fs \<and>
         snd (filesToProcess fs ! k) = fs ! fst (filesToProcess fs ! k) \<and>
         status (snd (filesToProcess fs ! k)) \<noteq> Success"
proof -
  from assms have "filesToProcess fs ! k \<in> set (filesToProcess fs)" by (rule nth_mem)
  then have "(fst (filesToProcess fs ! k), snd (filesToProcess fs ! k)) \<in> set (filesToProcess fs)"
    by simp
  then show ?thesis unfolding set_filesToProcess by blast
qed

lemma filesToProcess_position:
  assumes "i < length fs" "status (fs ! i) \<noteq> Success"
  shows "\<exists>k<length (filesToProcess fs). filesToProcess fs ! k = (i, fs ! i)"
proof -
  from assms have "(i, fs ! i) \<in> set (filesToProcess fs)"
    by (simp add: set_filesToProcess)
  then show ?thesis by (auto simp: in_set_conv_nth)
qed

lemma apply_results_nth:
  assumes "distinct (map fst rs)" "\<forall>p\<in>set rs. fst p < length prev"
  shows "length (apply_results prev rs) = length prev \<and>
         (\<forall>j<length prev. apply_results prev rs ! j =
             (case map_of rs j of Some r \<Rightarrow> r | None \<Rightarrow> prev ! j))"
  using assms
proof (induction rs arbitrary: prev)
  case Nil
  then show ?case by (simp add: apply_results_def)
next
  case (Cons p rs)
  obtain i r where p: "p = (i, r)" by (cases p)
  have step: "apply_results prev (p # rs) = apply_results (prev[i := r]) rs"
    by (simp add: apply_results_def p)
  from Cons.prems have d: "distinct (map fst rs)" and ni: "i \<notin> fst ` set rs"
    and b: "\<forall>q\<in>set rs. fst q < length (prev[i := r])" and i: "i < length prev"
    by (auto simp: p)
  from ni have none: "map_of rs i = None"
    by (simp add: map_of_eq_None_iff)
  from Cons.IH[OF d b] i none show ?case
    unfolding step by (auto simp: p nth_list_update split: option.splits)
qed

lemma mark_processing_status:
  "status f = Pending \<or> status f = StatusError \<Longrightarrow> status (mark_processing f) = Processing"
  "status f = Success \<Longrightarrow> mark_processing f = f"
  by (auto simp: mark_processing_def)

lemma handler_inv_start: "handler_inv user fs env (start fs st0)"
  by (simp add: handler_inv_def start_def)

lemma handler_inv_step:
  assumes "handler_inv user fs env s" "step user fs env s s'"
  shows "handler_inv user fs env s'"
  using assms(2)
proof cases
  case mark
  with assms(1) show ?thesis by (simp add: handler_inv_def)
next
  case launch
  with assms(1) show ?thesis by (simp add: handler_inv_def)
next
  case (settle k st' outcome)
  from assms(1) settle(2) have aw: "pc s = Awaiting" by (auto simp: handler_inv_def)
  from processFile_resolves[of user "env k" "store s" "snd (filesToProcess fs ! k)"] settle(5)
  obtain r where out: "outcome = Inr r" by auto
  with settle(5) have oc: "outcome_of user (env k) (snd (filesToProcess fs ! k)) r"
    by (auto simp: outcome_of_def intro!: exI[of _ "store s"])
  from assms(1) aw settle(1,3) out oc show ?thesis
    by (auto simp: handler_inv_def nth_list_update)
next
  case (resume settled rs)
  from those_Some_nth[OF resume(3)] promise_all_Inr_nth[OF resume(4)]
  have len: "length rs = length (promises s)"
    and nth: "\<forall>k<length (promises s). promises s ! k = Some (Inr (rs ! k))"
    by auto
  from assms(1) resume(1,2) len nth show ?thesis
    by (auto simp: handler_inv_def)
next
  case (reject k e)
  with assms(1) show ?thesis
    by (auto simp: handler_inv_def)
next
  case apply_updater
  with assms(1) show ?thesis by (auto simp: handler_inv_def)
next
  case navigate
  with assms(1) show ?thesis by (auto simp: handler_inv_def)
qed

lemma handler_inv_reachable:
  assumes "(step user fs env)\<^sup>*\<^sup>* (start fs st0) s"
  shows "handler_inv user fs env s"
  using assms
  by (induction rule: rtranclp_induct) (auto intro: handler_inv_start handler_inv_step)

lemma handler_final_entries:
  assumes inv: "handler_inv user fs env s" and pc: "pc s = AtNavigate \<or> pc s = Finished"
    and i: "i < length fs"
  shows "(status (fs ! i) = Success \<longrightarrow> ui s ! i = fs ! i) \<and>
         (status (fs ! i) \<noteq> Success \<longrightarrow>
            (\<exists>k<length (filesToProcess fs). filesToProcess fs ! k = (i, fs ! i) \<and>
                results s ! k = (i, ui s ! i) \<and>
                outcome_of user (env k) (fs ! i) (ui s ! i)))"
proof -
  let ?T = "filesToProcess fs"
  from inv pc have len: "length (results s) = length ?T"
    and res: "\<forall>k<length (results s). \<exists>r. results s ! k = (fst (?T ! k), r) \<and>
               outcome_of user (env k) (snd (?T ! k)) r"
    and ui: "ui s = apply_results (map mark_processing fs) (results s)"
    by (auto simp: handler_inv_def)
  have fsts: "map fst (results s) = map fst ?T"
  proof (rule nth_equalityI)
    show "length (map fst (results s)) = length (map fst ?T)" by (simp add: len)
    fix k assume "k < length (map fst (results s))"
    then have k: "k < length (results s)" by simp
    with res obtain r where "results s ! k = (fst (?T ! k), r)" by blast
    with k len show "map fst (results s) ! k = map fst ?T ! k" by simp
  qed
  then have d: "distinct (map fst (results s))"
    by (simp add: distinct_filesToProcess)
  have b: "\<forall>p\<in>set (results s). fst p < length (map mark_processing fs)"
  proof
    fix p assume "p \<in> set (results s)"
    then have "fst p \<in> set (map fst (results s))" by simp
    then have "fst p \<in> set (map fst ?T)" by (simp only: fsts)
    then obtain q where "q \<in> set ?T" "fst q = fst p" by auto
    then have "(fst p, snd q) \<in> set ?T" by (metis prod.collapse)
    then show "fst p < length (map mark_processing fs)"
      by (simp add: set_filesToProcess)
  qed
  from apply_results_nth[OF d b] i ui
  have nth: "ui s ! i = (case map_of (results s) i of
                          Some r \<Rightarrow> r | None \<Rightarrow> mark_processing (fs ! i))"
    by (simp split: option.splits)
  show ?thesis
  proof (intro conjI impI)
    assume s: "status (fs ! i) = Success"
    have "i \<notin> fst ` set ?T"
      using s by (auto simp: set_filesToProcess)
    then have "i \<notin> fst ` set (results s)"
      using fsts by (metis set_map)
    then have "map_of (results s) i = None"
      by (simp add: map_of_eq_None_iff)
    with nth s show "ui s ! i = fs ! i"
      by (simp add: mark_processing_status)
  next
    assume ns: "status (fs ! i) \<noteq> Success"
    from filesToProcess_position[OF i ns] obtain k where
      k: "k < length ?T" and tk: "?T ! k = (i, fs ! i)" by blast
    from res k len tk obtain r where rk: "results s ! k = (i, r)"
      and oc: "outcome_of user (env k) (fs ! i) r" by fastforce
    from k len rk have "(i, r) \<in> set (results s)"
      by (metis nth_mem)
    with d have "map_of (results s) i = Some r"
      by (simp add: map_of_is_SomeI)
    with nth have "ui s ! i = r" by simp
    with k tk rk oc
    show "\<exists>k<length ?T. ?T ! k = (i, fs ! i) \<and> results s ! k = (i, ui s ! i) \<and>
            outcome_of user (env k) (fs ! i) (ui s ! i)"
      by blast
  qed
qed

lemma pending_decreases:
  "k < length ps \<Longrightarrow> ps ! k = None \<Longrightarrow>
     length (filter (\<lambda>p. p = None) (ps[k := Some x])) < length (filter (\<lambda>p. p = None) ps)"
proof (induction ps arbitrary: k)
  case Nil
  then show ?case by simp
next
  case (Cons p ps)
  show ?case
  proof (cases k)
    case 0
    with Cons.prems show ?thesis
      by (simp add: less_Suc_eq_le)
  next
    case (Suc j)
    with Cons.prems Cons.IH[of j] show ?thesis by simp
  qed
qed

lemma step_decreases:
  assumes "step user fs env s s'"
  shows "steps_left fs s' < steps_left fs s"
  using assms
proof cases
  case (settle k st' outcome)
  from pending_decreases[OF settle(3,4)] settle(1,2) show ?thesis
    by (auto simp: steps_left_def)
qed (auto simp: steps_left_def)

lemma settle_enabled:
  assumes inv: "handler_inv user fs env s" and k: "k < length (promises s)"
    and none: "promises s ! k = None"
  shows "\<exists>s'. step user fs env s s' \<and> promises s' ! k \<noteq> None \<and>
            length (promises s') = length (promises s) \<and>
            (\<forall>j. j \<noteq> k \<longrightarrow> promises s' ! j = promises s ! j)"
proof -
  from inv k none have aw: "pc s = Awaiting"
    by (cases "pc s") (auto simp: handler_inv_def)
  obtain st' outcome where
    p: "processFile user (env k) (store s) (snd (filesToProcess fs ! k)) = (st', outcome)"
    by (cases "processFile user (env k) (store s) (snd (filesToProcess fs ! k))")
  let ?s' = "s\<lparr>store := st',
                promises := (promises s)
                  [k := Some (case outcome of
                                Inl e \<Rightarrow> Inl e
                              | Inr result \<Rightarrow> Inr (fst (filesToProcess fs ! k), result))]\<rparr>"
  have "step user fs env s ?s'"
    using aw k none p by (intro step.settle) simp_all
  moreover have "promises ?s' ! k \<noteq> None" using k by simp
  moreover have "\<forall>j. j \<noteq> k \<longrightarrow> promises ?s' ! j = promises s ! j" by simp
  moreover have "length (promises ?s') = length (promises s)" by simp
  ultimately show ?thesis by blast
qed

lemma step_enabled:
  assumes inv: "handler_inv user fs env s" and nf: "pc s \<noteq> Finished"
  shows "\<exists>s'. step user fs env s s'"
proof (cases "pc s")
  case AtMark
  then have "step user fs env s (s\<lparr>ui := map mark_processing (ui s), pc := AtLaunch\<rparr>)"
    by (rule step.mark)
  then show ?thesis ..
next
  case AtLaunch
  then have "step user fs env s
       (s\<lparr>promises := map (\<lambda>item. None) (filesToProcess fs), pc := Awaiting\<rparr>)"
    by (rule step.launch)
  then show ?thesis ..
next
  case Awaiting
  show ?thesis
  proof (cases "\<exists>k<length (promises s). promises s ! k = None")
    case True
    then obtain k where "k < length (promises s)" "promises s ! k = None" by blast
    from settle_enabled[OF inv this] show ?thesis by blast
  next
    case False
    then have all: "\<forall>k<length (promises s). promises s ! k \<noteq> None" by simp
    from those_all_Some[OF all] obtain settled where t: "those (promises s) = Some settled"
      by blast
    from those_Some_nth[OF t] have len: "length settled = length (promises s)"
      and nth: "\<forall>k<length (promises s). promises s ! k = Some (settled ! k)" by auto
    from inv have slots: "\<forall>k<length (promises s).
        promises s ! k = None \<or>
        (\<exists>r. promises s ! k = Some (Inr (fst (filesToProcess fs ! k), r)) \<and>
             outcome_of user (env k) (snd (filesToProcess fs ! k)) r)"
      by (simp add: handler_inv_def)
    have "\<forall>k<length settled. \<exists>v. settled ! k = Inr v"
    proof (intro allI impI)
      fix k assume "k < length settled"
      with len have k: "k < length (promises s)" by simp
      from nth k have 1: "promises s ! k = Some (settled ! k)" by blast
      from slots k have "promises s ! k = None \<or>
        (\<exists>r. promises s ! k = Some (Inr (fst (filesToProcess fs ! k), r)) \<and>
             outcome_of user (env k) (snd (filesToProcess fs ! k)) r)"
        by blast
      with 1 show "\<exists>v. settled ! k = Inr v" by auto
    qed
    from promise_all_all_Inr[OF this] obtain rs where "promise_all settled = Inr rs" by blast
    with Awaiting t have "step user fs env s (s\<lparr>results := rs, pc := AtApply\<rparr>)"
      by (rule step.resume)
    then show ?thesis ..
  qed
next
  case AtApply
  then have "step user fs env s
      (s\<lparr>ui := apply_results (ui s) (results s), pc := AtNavigate\<rparr>)"
    by (rule step.apply_updater)
  then show ?thesis ..
next
  case AtNavigate
  then have "step user fs env s
       (s\<lparr>completed := completed s @ navigation fs (results s), pc := Finished\<rparr>)"
    by (rule step.navigate)
  then show ?thesis ..
next
  case Finished
  with nf show ?thesis by simp
next
  case Thrown
  with inv show ?thesis by (simp add: handler_inv_def)
qed

text \<open>
  Claim C1. In every state \<^verbatim>\<open>handleAnalyzeAll\<close> reaches: no promise exists before the
  first updater has marked every pending or failed entry as processing; one call of
  \<^verbatim>\<open>processFile\<close> is launched per entry that is not successful, each index once; while
  the handler waits the displayed list is the marked one, with no outcome in it; the
  handler never throws at the await, because no call rejects; once the second updater
  has run, every promise is settled, every entry that was successful is unchanged and
  every other entry holds the outcome of its own call, with status success or error.
  That outcome is fixed by the surroundings of the call alone: the read-failure entry when
  the file cannot be read; the error entry with the message of the error
  \<^verbatim>\<open>analyzeContract\<close> rejects with when the analysis of this file is rejected; and when
  the analysis resolves, the success entry with the contract built from that analysis, or
  the save-failure entry. A pending call can always settle, whatever the other calls did,
  and leaves their promises as they are; the handler can always take a step until it has
  finished, and every step reduces the number of steps left.
\<close>

theorem handleAnalyzeAll_marks_then_joins:
  assumes "(step user fs env)\<^sup>*\<^sup>* (start fs st0) s"
  shows
    "pc s \<noteq> Thrown \<and>
     (pc s = AtMark \<or> pc s = AtLaunch \<longrightarrow> promises s = []) \<and>
     (pc s = AtLaunch \<or> pc s = Awaiting \<or> pc s = AtApply \<longrightarrow>
        ui s = map mark_processing fs \<and>
        (\<forall>i<length fs. status (fs ! i) = Pending \<or> status (fs ! i) = StatusError \<longrightarrow>
           status (ui s ! i) = Processing)) \<and>
     (pc s = Awaiting \<longrightarrow> length (promises s) = length (filesToProcess fs)) \<and>
     distinct (map fst (filesToProcess fs)) \<and>
     (\<forall>i<length fs. status (fs ! i) \<noteq> Success \<longrightarrow>
        (\<exists>k<length (filesToProcess fs). filesToProcess fs ! k = (i, fs ! i))) \<and>
     (\<forall>k<length (filesToProcess fs). status (snd (filesToProcess fs ! k)) \<noteq> Success) \<and>
     (pc s = AtNavigate \<or> pc s = Finished \<longrightarrow>
        (\<forall>k<length (promises s). promises s ! k \<noteq> None) \<and>
        (\<forall>i<length fs.
           (status (fs ! i) = Success \<longrightarrow> ui s ! i = fs ! i) \<and>
           (status (fs ! i) \<noteq> Success \<longrightarrow>
              (status (ui s ! i) = Success \<or> status (ui s ! i) = StatusError) \<and>
              (\<exists>k<length (filesToProcess fs). filesToProcess fs ! k = (i, fs ! i) \<and>
                 outcome_of user (env k) (fs ! i) (ui s ! i) \<and>
                 (case reader_result (env k) of
                    None \<Rightarrow>
                      ui s ! i =
                        (fs ! i)\<lparr>status := StatusError, error := Some ''Failed to read file''\<rparr>
                  | Some url \<Rightarrow>
                      (case analyze (env k) (nth_opt (js_split (CHR '','') url) 1)
                              (file_type (file' (fs ! i))) of
                         Inl err \<Rightarrow>
                           ui s ! i =
                             (fs ! i)\<lparr>status := StatusError,
                                  error := Some (or_else (message err)
                                    ''Failed to analyze due to an unexpected error.'')\<rparr>
                       | Inr an \<Rightarrow>
                           ui s ! i =
                             (fs ! i)\<lparr>status := Success,
                                  contract := Some (newContract user (env k) (fs ! i)
                                    (nth_opt (js_split (CHR '','') url) 1) an)\<rparr> \<or>
                           ui s ! i =
                             (fs ! i)\<lparr>status := StatusError,
                                  error := Some (''Analyzed successfully but failed to save to ''
                                    @ ''browser storage. Check available disk space.'')\<rparr>)))))) \<and>
     (\<forall>k<length (promises s). promises s ! k = None \<longrightarrow>
        (\<exists>s'. step user fs env s s' \<and> promises s' ! k \<noteq> None \<and>
           (\<forall>j. j \<noteq> k \<longrightarrow> promises s' ! j = promises s ! j))) \<and>
     (pc s \<noteq> Finished \<longrightarrow> (\<exists>s'. step user fs env s s')) \<and>
     (\<forall>s'. step user fs env s s' \<longrightarrow> steps_left fs s' < steps_left fs s)"
proof -
  from assms have inv: "handler_inv user fs env s" by (rule handler_inv_reachable)
  have 1: "pc s \<noteq> Thrown" using inv by (simp add: handler_inv_def)
  have 2: "pc s = AtMark \<or> pc s = AtLaunch \<longrightarrow> promises s = []"
    using inv by (simp add: handler_inv_def)
  have 3: "pc s = AtLaunch \<or> pc s = Awaiting \<or> pc s = AtApply \<longrightarrow>
        ui s = map mark_processing fs \<and>
        (\<forall>i<length fs. status (fs ! i) = Pending \<or> status (fs ! i) = StatusError \<longrightarrow>
           status (ui s ! i) = Processing)"
  proof
    assume "pc s = AtLaunch \<or> pc s = Awaiting \<or> pc s = AtApply"
    with inv have u: "ui s = map mark_processing fs" by (simp add: handler_inv_def)
    then show "ui s = map mark_processing fs \<and>
        (\<forall>i<length fs. status (fs ! i) = Pending \<or> status (fs ! i) = StatusError \<longrightarrow>
           status (ui s ! i) = Processing)"
      by (simp add: mark_processing_status)
  qed
  have 4: "pc s = Awaiting \<longrightarrow> length (promises s) = length (filesToProcess fs)"
    using inv by (simp add: handler_inv_def)
  have 5: "distinct (map fst (filesToProcess fs))" by (rule distinct_filesToProcess)
  have 6: "\<forall>i<length fs. status (fs ! i) \<noteq> Success \<longrightarrow>
        (\<exists>k<length (filesToProcess fs). filesToProcess fs ! k = (i, fs ! i))"
    using filesToProcess_position by blast
  have 7: "\<forall>k<length (filesToProcess fs). status (snd (filesToProcess fs ! k)) \<noteq> Success"
    using nth_filesToProcess by blast
  have 8: "pc s = AtNavigate \<or> pc s = Finished \<longrightarrow>
        (\<forall>k<length (promises s). promises s ! k \<noteq> None) \<and>
        (\<forall>i<length fs.
           (status (fs ! i) = Success \<longrightarrow> ui s ! i = fs ! i) \<and>
           (status (fs ! i) \<noteq> Success \<longrightarrow>
              (status (ui s ! i) = Success \<or> status (ui s ! i) = StatusError) \<and>
              (\<exists>k<length (filesToProcess fs). filesToProcess fs ! k = (i, fs ! i) \<and>
                 outcome_of user (env k) (fs ! i) (ui s ! i) \<and>
                 (case reader_result (env k) of
                    None \<Rightarrow>
                      ui s ! i =
                        (fs ! i)\<lparr>status := StatusError, error := Some ''Failed to read file''\<rparr>
                  | Some url \<Rightarrow>
                      (case analyze (env k) (nth_opt (js_split (CHR '','') url) 1)
                              (file_type (file' (fs ! i))) of
                         Inl err \<Rightarrow>
                           ui s ! i =
                             (fs ! i)\<lparr>status := StatusError,
                                  error := Some (or_else (message err)
                                    ''Failed to analyze due to an unexpected error.'')\<rparr>
                       | Inr an \<Rightarrow>
                           ui s ! i =
                             (fs ! i)\<lparr>status := Success,
                                  contract := Some (newContract user (env k) (fs ! i)
                                    (nth_opt (js_split (CHR '','') url) 1) an)\<rparr> \<or>
                           ui s ! i =
                             (fs ! i)\<lparr>status := StatusError,
                                  error := Some (''Analyzed successfully but failed to save to ''
                                    @ ''browser storage. Check available disk space.'')\<rparr>)))))"
  proof (intro impI conjI allI)
    assume pc: "pc s = AtNavigate \<or> pc s = Finished"
    show "promises s ! k \<noteq> None" if "k < length (promises s)" for k
      using inv pc that by (auto simp: handler_inv_def)
    fix i assume i: "i < length fs"
    note f = handler_final_entries[OF inv pc i]
    show "ui s ! i = fs ! i" if "status (fs ! i) = Success"
      using f that by blast
    assume ns: "status (fs ! i) \<noteq> Success"
    with f obtain k where k: "k < length (filesToProcess fs)"
      "filesToProcess fs ! k = (i, fs ! i)" "outcome_of user (env k) (fs ! i) (ui s ! i)"
      by blast
    from outcome_of_status[OF k(3)]
    show "status (ui s ! i) = Success \<or> status (ui s ! i) = StatusError" by blast
    from k outcome_of_analyzed[OF k(3)]
    show "\<exists>k<length (filesToProcess fs). filesToProcess fs ! k = (i, fs ! i) \<and>
                 outcome_of user (env k) (fs ! i) (ui s ! i) \<and>
                 (case reader_result (env k) of
                    None \<Rightarrow>
                      ui s ! i =
                        (fs ! i)\<lparr>status := StatusError, error := Some ''Failed to read file''\<rparr>
                  | Some url \<Rightarrow>
                      (case analyze (env k) (nth_opt (js_split (CHR '','') url) 1)
                              (file_type (file' (fs ! i))) of
                         Inl err \<Rightarrow>
                           ui s ! i =
                             (fs ! i)\<lparr>status := StatusError,
                                  error := Some (or_else (message err)
                                    ''Failed to analyze due to an unexpected error.'')\<rparr>
                       | Inr an \<Rightarrow>
                           ui s ! i =
                             (fs ! i)\<lparr>status := Success,
                                  contract := Some (newContract user (env k) (fs ! i)
                                    (nth_opt (js_split (CHR '','') url) 1) an)\<rparr> \<or>
                           ui s ! i =
                             (fs ! i)\<lparr>status := StatusError,
                                  error := Some (''Analyzed successfully but failed to save to ''
                                    @ ''browser storage. Check available disk space.'')\<rparr>))" by blast
  qed
  have 9: "\<forall>k<length (promises s). promises s ! k = None \<longrightarrow>
        (\<exists>s'. step user fs env s s' \<and> promises s' ! k \<noteq> None \<and>
           (\<forall>j. j \<noteq> k \<longrightarrow> promises s' ! j = promises s ! j))"
    using settle_enabled[OF inv] by blast
  have 10: "pc s \<noteq> Finished \<longrightarrow> (\<exists>s'. step user fs env s s')"
    using step_enabled[OF inv] by blast
  have 11: "\<forall>s'. step user fs env s s' \<longrightarrow> steps_left fs s' < steps_left fs s"
    using step_decreases by blast
  from 1 2 3 4 5 6 7 8 9 10 11 show ?thesis by (intro conjI)
qed




text \<open>Two runs of the handler: the batch of four entries on the small storage, the calls
  settling in the order of their launch, and a single file on a storage that accepts every
  write.\<close>

lemma sample_readers:
  "reader_result sample_env = Some ''data:application/pdf;base64,QQ==''"
  "reader_result busy_env = Some ''data:application/pdf;base64,QQ==''"
  "reader_result late_env = Some ''data:application/pdf;base64,QQ==''"
  "reader_result unreadable_env = None"
  by (simp_all add: sample_env_def busy_env_def late_env_def unreadable_env_def)

lemma analyze_late_env: "analyze late_env d m = Inr sample_analysis"
  using analyze_sample_env[of d m] by (simp add: late_env_def)

lemma newContract_late:
  "file' f = pdf_file \<Longrightarrow>
   newContract sample_user late_env f (Some ''QQ=='') sample_analysis =
     sample_contract\<lparr>contract_id := ''c2''\<rparr>"
  by (simp add: newContract_def late_env_def sample_env_def sample_user_def pdf_file_def
      sample_contract_def)

lemma processFile_unreadable:
  "processFile user unreadable_env st f =
     (st, Inr (f\<lparr>status := StatusError, error := Some ''Failed to read file''\<rparr>))"
  by (rule processFile_read_failure) (rule sample_readers)

lemma processFile_busy:
  "processFile user busy_env st f =
     (st, Inr (f\<lparr>status := StatusError,
                error := Some ''AI usage limit exceeded. Please try again in a few moments.''\<rparr>))"
  using processFile_analysis_failure[OF sample_readers(2) analyze_busy_env, of user st f]
  by (simp add: new_Error_def or_else_def)

lemma processFile_sample_saved:
  assumes f: "file' f = pdf_file" and save: "saveContract st sample_contract = Inr st1"
  shows "processFile sample_user sample_env st f =
           (saveRecentAnalysis st1 sample_recent,
            Inr (f\<lparr>status := Success, contract := Some sample_contract\<rparr>))"
proof -
  let ?d = "nth_opt (js_split (CHR '','') ''data:application/pdf;base64,QQ=='') 1"
  have c: "newContract sample_user sample_env f ?d sample_analysis = sample_contract"
    by (simp only: sample_base64 newContract_sample[OF f])
  have s: "saveContract st (newContract sample_user sample_env f ?d sample_analysis) = Inr st1"
    unfolding c by (rule save)
  from processFile_saved[OF sample_readers(1) analyze_sample_env s]
  show ?thesis unfolding c recentAnalysis_sample .
qed

lemma processFile_late_refused:
  assumes f: "file' f = pdf_file"
    and save: "saveContract st (sample_contract\<lparr>contract_id := ''c2''\<rparr>) = Inl e"
  shows "processFile sample_user late_env st f =
           (st, Inr (f\<lparr>status := StatusError,
                      error := Some (''Analyzed successfully but failed to save to ''
                                     @ ''browser storage. Check available disk space.'')\<rparr>))"
proof -
  let ?d = "nth_opt (js_split (CHR '','') ''data:application/pdf;base64,QQ=='') 1"
  have c: "newContract sample_user late_env f ?d sample_analysis =
             sample_contract\<lparr>contract_id := ''c2''\<rparr>"
    by (simp only: sample_base64 newContract_late[OF f])
  have s: "saveContract st (newContract sample_user late_env f ?d sample_analysis) = Inl e"
    unfolding c by (rule save)
  from processFile_save_failure[OF sample_readers(3) analyze_late_env s]
  show ?thesis .
qed

lemma saveContract_small_store:
  "saveContract small_store sample_contract =
     Inr (small_store\<lparr>items := (items small_store)
            (CONTRACTS \<mapsto> stringify (JArr [Contract_obj sample_contract]))\<rparr>)"
  by (simp add: saveContract_def loadContracts_def parse_or_empty_def getItem_def
      setItem_def small_store_def as_array_def Let_def)

lemma saveRecentAnalysis_keeps:
  "refuses (saveRecentAnalysis st a) = refuses st"
  "loadContracts (saveRecentAnalysis st a) = loadContracts st"
  by (auto simp: saveRecentAnalysis_def Let_def setItem_def loadContracts_def getItem_def
      CONTRACTS_def RECENT_ANALYSES_def split: sum.splits option.splits)

lemma saveContract_small_store_full:
  "saveContract
     (saveRecentAnalysis
        (small_store\<lparr>items := (items small_store)
           (CONTRACTS \<mapsto> stringify (JArr [Contract_obj sample_contract]))\<rparr>) a)
     (sample_contract\<lparr>contract_id := ''c2''\<rparr>) = Inl (new_Error ''QuotaExceededError'')"
proof -
  let ?st1 = "small_store\<lparr>items := (items small_store)
           (CONTRACTS \<mapsto> stringify (JArr [Contract_obj sample_contract]))\<rparr>"
  have l: "loadContracts (saveRecentAnalysis ?st1 a) = Inr (JArr [Contract_obj sample_contract])"
    unfolding saveRecentAnalysis_keeps
    by (simp add: loadContracts_def parse_or_empty_def getItem_def stringify_def
        serialized_Contract[OF exact_samples(1)])
  have i: "findIndex (member_is ''id'' ''c2'') [Contract_obj sample_contract] = Inr (- 1)"
    by (simp add: member_is_object get_prop_Contract_obj sample_contract_def)
  have r: "refuses (saveRecentAnalysis ?st1 a) CONTRACTS
             (stringify (JArr [Contract_obj sample_contract,
                         Contract_obj (sample_contract\<lparr>contract_id := ''c2''\<rparr>)])) =
           Some (new_Error ''QuotaExceededError'')"
    unfolding saveRecentAnalysis_keeps
    by (simp add: small_store_def stringify_def Contract_obj_def sample_contract_def)
  show ?thesis
    unfolding saveContract_def l
    by (simp add: as_array_def i setItem_def r Let_def del: findIndex.simps)
qed

lemma filesToProcess_batch:
  "filesToProcess batch =
     [(0, pdf_upload), (1, pdf_upload), (2, failed_upload), (3, pdf_upload)]"
  by (simp add: filesToProcess_def batch_def pdf_upload_def failed_upload_def enumerate_eq_zip
      upt_rec)

lemma batch_run:
  "\<exists>s. (step sample_user batch batch_env)\<^sup>*\<^sup>* (start batch small_store) s \<and>
       pc s = Finished \<and>
       ui s = [pdf_upload\<lparr>status := StatusError, error := Some ''Failed to read file''\<rparr>,
               pdf_upload\<lparr>status := StatusError,
                 error := Some ''AI usage limit exceeded. Please try again in a few moments.''\<rparr>,
               failed_upload\<lparr>status := Success, contract := Some sample_contract\<rparr>,
               pdf_upload\<lparr>status := StatusError,
                 error := Some (''Analyzed successfully but failed to save to ''
                                @ ''browser storage. Check available disk space.'')\<rparr>] \<and>
       completed s = []"
proof -
  let ?step = "step sample_user batch batch_env"
  let ?T = "filesToProcess batch"
  define r0 where "r0 = pdf_upload\<lparr>status := StatusError, error := Some ''Failed to read file''\<rparr>"
  define r1 where "r1 = pdf_upload\<lparr>status := StatusError,
     error := Some ''AI usage limit exceeded. Please try again in a few moments.''\<rparr>"
  define r2 where "r2 = failed_upload\<lparr>status := Success, contract := Some sample_contract\<rparr>"
  define r3 where "r3 = pdf_upload\<lparr>status := StatusError,
     error := Some (''Analyzed successfully but failed to save to ''
                    @ ''browser storage. Check available disk space.'')\<rparr>"
  define X where "X = saveRecentAnalysis
     (small_store\<lparr>items := (items small_store)
        (CONTRACTS \<mapsto> stringify (JArr [Contract_obj sample_contract]))\<rparr>) sample_recent"
  define s0 where "s0 = start batch small_store"
  define s1 where "s1 = s0\<lparr>ui := map mark_processing (ui s0), pc := AtLaunch\<rparr>"
  define s2 where "s2 = s1\<lparr>promises := map (\<lambda>item. None) ?T, pc := Awaiting\<rparr>"
  define P0 where "P0 = processFile sample_user (batch_env 0) (store s2) (snd (?T ! 0))"
  define s3 where "s3 = s2\<lparr>store := fst P0,
      promises := (promises s2)[0 := Some (case snd P0 of Inl e \<Rightarrow> Inl e
                     | Inr result \<Rightarrow> Inr (fst (?T ! 0), result))]\<rparr>"
  define P1 where "P1 = processFile sample_user (batch_env 1) (store s3) (snd (?T ! 1))"
  define s4 where "s4 = s3\<lparr>store := fst P1,
      promises := (promises s3)[1 := Some (case snd P1 of Inl e \<Rightarrow> Inl e
                     | Inr result \<Rightarrow> Inr (fst (?T ! 1), result))]\<rparr>"
  define P2 where "P2 = processFile sample_user (batch_env 2) (store s4) (snd (?T ! 2))"
  define s5 where "s5 = s4\<lparr>store := fst P2,
      promises := (promises s4)[2 := Some (case snd P2 of Inl e \<Rightarrow> Inl e
                     | Inr result \<Rightarrow> Inr (fst (?T ! 2), result))]\<rparr>"
  define P3 where "P3 = processFile sample_user (batch_env 3) (store s5) (snd (?T ! 3))"
  define s6 where "s6 = s5\<lparr>store := fst P3,
      promises := (promises s5)[3 := Some (case snd P3 of Inl e \<Rightarrow> Inl e
                     | Inr result \<Rightarrow> Inr (fst (?T ! 3), result))]\<rparr>"
  define s7 where "s7 = s6\<lparr>results := [(0, r0), (1, r1), (2, r2), (3, r3)], pc := AtApply\<rparr>"
  define s8 where "s8 = s7\<lparr>ui := apply_results (ui s7) (results s7), pc := AtNavigate\<rparr>"
  define s9 where "s9 = s8\<lparr>completed := completed s8 @ navigation batch (results s8),
      pc := Finished\<rparr>"
  have f: "file' failed_upload = pdf_file" "file' pdf_upload = pdf_file"
    by (simp_all add: failed_upload_def pdf_upload_def)
  have st2: "store s2 = small_store" by (simp add: s2_def s1_def s0_def start_def)
  have p0: "P0 = (small_store, Inr r0)"
    by (simp add: P0_def st2 batch_env_def filesToProcess_batch processFile_unreadable r0_def)
  have st3: "store s3 = small_store" by (simp add: s3_def p0)
  have p1: "P1 = (small_store, Inr r1)"
    by (simp add: P1_def st3 batch_env_def filesToProcess_batch processFile_busy r1_def)
  have st4: "store s4 = small_store" by (simp add: s4_def p1)
  have p2: "P2 = (X, Inr r2)"
    by (simp add: P2_def st4 batch_env_def filesToProcess_batch r2_def X_def
        processFile_sample_saved[OF f(1) saveContract_small_store])
  have st5: "store s5 = X" by (simp add: s5_def p2)
  have p3: "P3 = (X, Inr r3)"
    unfolding P3_def st5 X_def
    by (simp add: batch_env_def filesToProcess_batch r3_def
        processFile_late_refused[OF f(2) saveContract_small_store_full])
  have pr6: "promises s6 = [Some (Inr (0, r0)), Some (Inr (1, r1)), Some (Inr (2, r2)),
                            Some (Inr (3, r3))]"
    by (simp add: s6_def s5_def s4_def s3_def s2_def p0 p1 p2 p3 filesToProcess_batch)
  have 1: "?step s0 s1" unfolding s1_def
    by (rule step.mark) (simp add: s0_def start_def)
  have 2: "?step s1 s2" unfolding s2_def
    by (rule step.launch) (simp add: s1_def)
  have 3: "?step s2 s3" unfolding s3_def
    by (rule step.settle) (simp_all add: s2_def filesToProcess_batch P0_def)
  have 4: "?step s3 s4" unfolding s4_def
    by (rule step.settle) (simp_all add: s3_def s2_def filesToProcess_batch P1_def)
  have 5: "?step s4 s5" unfolding s5_def
    by (rule step.settle) (simp_all add: s4_def s3_def s2_def filesToProcess_batch P2_def)
  have 6: "?step s5 s6" unfolding s6_def
    by (rule step.settle) (simp_all add: s5_def s4_def s3_def s2_def filesToProcess_batch P3_def)
  have 7: "?step s6 s7" unfolding s7_def
    by (rule step.resume[where settled = "[Inr (0, r0), Inr (1, r1), Inr (2, r2), Inr (3, r3)]"])
       (simp_all add: pr6, simp add: s6_def s5_def s4_def s3_def s2_def)
  have 8: "?step s7 s8" unfolding s8_def
    by (rule step.apply_updater) (simp add: s7_def)
  have 9: "?step s8 s9" unfolding s9_def
    by (rule step.navigate) (simp add: s8_def)
  from 1 2 3 4 5 6 7 8 9 have "?step\<^sup>*\<^sup>* s0 s9"
    by (meson rtranclp.rtrancl_into_rtrancl rtranclp.rtrancl_refl)
  moreover have "pc s9 = Finished" by (simp add: s9_def)
  moreover have "ui s9 = [r0, r1, r2, r3]"
    by (simp add: s9_def s8_def s7_def s6_def s5_def s4_def s3_def s2_def s1_def s0_def
        start_def apply_results_def batch_def)
  moreover have "completed s9 = []"
    by (simp add: s9_def s8_def s7_def s6_def s5_def s4_def s3_def s2_def s1_def s0_def
        start_def navigation_def batch_def)
  ultimately show ?thesis unfolding s0_def r0_def r1_def r2_def r3_def by blast
qed


theorem handleAnalyzeAll_marks_then_joins_witness:
  "\<exists>s. (step sample_user batch batch_env)\<^sup>*\<^sup>* (start batch small_store) s \<and>
       pc s = Finished \<and> pc s \<noteq> Thrown \<and>
       ui s ! 0 = pdf_upload\<lparr>status := StatusError, error := Some ''Failed to read file''\<rparr> \<and>
       ui s ! 1 = pdf_upload\<lparr>status := StatusError,
         error := Some ''AI usage limit exceeded. Please try again in a few moments.''\<rparr> \<and>
       ui s ! 2 = failed_upload\<lparr>status := Success, contract := Some sample_contract\<rparr> \<and>
       ui s ! 3 = pdf_upload\<lparr>status := StatusError,
         error := Some (''Analyzed successfully but failed to save to ''
                        @ ''browser storage. Check available disk space.'')\<rparr>"
proof -
  from batch_run obtain s where
    reach: "(step sample_user batch batch_env)\<^sup>*\<^sup>* (start batch small_store) s"
    and pc: "pc s = Finished"
    and ui: "ui s = [pdf_upload\<lparr>status := StatusError, error := Some ''Failed to read file''\<rparr>,
               pdf_upload\<lparr>status := StatusError,
                 error := Some ''AI usage limit exceeded. Please try again in a few moments.''\<rparr>,
               failed_upload\<lparr>status := Success, contract := Some sample_contract\<rparr>,
               pdf_upload\<lparr>status := StatusError,
                 error := Some (''Analyzed successfully but failed to save to ''
                                @ ''browser storage. Check available disk space.'')\<rparr>]"
    by blast
  note t = handleAnalyzeAll_marks_then_joins[OF reach]
  from t have thrown: "pc s \<noteq> Thrown" by blast
  from t pc have fin: "\<forall>i<length batch. status (batch ! i) \<noteq> Success \<longrightarrow>
      (\<exists>k<length (filesToProcess batch). filesToProcess batch ! k = (i, batch ! i) \<and>
         (case reader_result (batch_env k) of
            None \<Rightarrow>
              ui s ! i =
                (batch ! i)\<lparr>status := StatusError, error := Some ''Failed to read file''\<rparr>
          | Some url \<Rightarrow>
              (case analyze (batch_env k) (nth_opt (js_split (CHR '','') url) 1)
                      (file_type (file' (batch ! i))) of
                 Inl err \<Rightarrow>
                   ui s ! i =
                     (batch ! i)\<lparr>status := StatusError,
                          error := Some (or_else (message err)
                            ''Failed to analyze due to an unexpected error.'')\<rparr>
               | Inr an \<Rightarrow>
                   ui s ! i =
                     (batch ! i)\<lparr>status := Success,
                          contract := Some (newContract sample_user (batch_env k) (batch ! i)
                            (nth_opt (js_split (CHR '','') url) 1) an)\<rparr> \<or>
                   ui s ! i =
                     (batch ! i)\<lparr>status := StatusError,
                          error := Some (''Analyzed successfully but failed to save to ''
                            @ ''browser storage. Check available disk space.'')\<rparr>)))"
    by blast
  have b: "length batch = 4" "batch ! 0 = pdf_upload" "batch ! 1 = pdf_upload"
    "batch ! Suc 0 = pdf_upload"
    by (simp_all add: batch_def)
  have ns: "status (batch ! 0) \<noteq> Success" "status (batch ! 1) \<noteq> Success"
    by (simp_all add: batch_def pdf_upload_def)
  have l: "0 < length batch" "1 < length batch" by (simp_all add: b)
  have T: "\<And>k i. k < length (filesToProcess batch) \<Longrightarrow>
             fst (filesToProcess batch ! k) = i \<Longrightarrow> i < 4 \<Longrightarrow> k = i"
    by (auto simp: filesToProcess_batch less_Suc_eq numeral_eq_Suc)
  from fin[rule_format, OF l(1) ns(1)] obtain k0 where k0: "k0 < length (filesToProcess batch)"
    "filesToProcess batch ! k0 = (0, batch ! 0)"
    and c0: "(case reader_result (batch_env k0) of
            None \<Rightarrow>
              ui s ! 0 =
                (batch ! 0)\<lparr>status := StatusError, error := Some ''Failed to read file''\<rparr>
          | Some url \<Rightarrow>
              (case analyze (batch_env k0) (nth_opt (js_split (CHR '','') url) 1)
                      (file_type (file' (batch ! 0))) of
                 Inl err \<Rightarrow>
                   ui s ! 0 =
                     (batch ! 0)\<lparr>status := StatusError,
                          error := Some (or_else (message err)
                            ''Failed to analyze due to an unexpected error.'')\<rparr>
               | Inr an \<Rightarrow>
                   ui s ! 0 =
                     (batch ! 0)\<lparr>status := Success,
                          contract := Some (newContract sample_user (batch_env k0) (batch ! 0)
                            (nth_opt (js_split (CHR '','') url) 1) an)\<rparr> \<or>
                   ui s ! 0 =
                     (batch ! 0)\<lparr>status := StatusError,
                          error := Some (''Analyzed successfully but failed to save to ''
                            @ ''browser storage. Check available disk space.'')\<rparr>))"
    by blast
  from T[OF k0(1), of 0] k0(2) have "k0 = 0" by simp
  with c0 have e0: "ui s ! 0 = pdf_upload\<lparr>status := StatusError, error := Some ''Failed to read file''\<rparr>"
    by (simp add: b batch_env_def sample_readers )
  from fin[rule_format, OF l(2) ns(2)] obtain k1 where k1: "k1 < length (filesToProcess batch)"
    "filesToProcess batch ! k1 = (1, batch ! 1)"
    and c1: "(case reader_result (batch_env k1) of
            None \<Rightarrow>
              ui s ! 1 =
                (batch ! 1)\<lparr>status := StatusError, error := Some ''Failed to read file''\<rparr>
          | Some url \<Rightarrow>
              (case analyze (batch_env k1) (nth_opt (js_split (CHR '','') url) 1)
                      (file_type (file' (batch ! 1))) of
                 Inl err \<Rightarrow>
                   ui s ! 1 =
                     (batch ! 1)\<lparr>status := StatusError,
                          error := Some (or_else (message err)
                            ''Failed to analyze due to an unexpected error.'')\<rparr>
               | Inr an \<Rightarrow>
                   ui s ! 1 =
                     (batch ! 1)\<lparr>status := Success,
                          contract := Some (newContract sample_user (batch_env k1) (batch ! 1)
                            (nth_opt (js_split (CHR '','') url) 1) an)\<rparr> \<or>
                   ui s ! 1 =
                     (batch ! 1)\<lparr>status := StatusError,
                          error := Some (''Analyzed successfully but failed to save to ''
                            @ ''browser storage. Check available disk space.'')\<rparr>))"
    by blast
  from T[OF k1(1), of 1] k1(2) have "k1 = 1" by simp
  with c1 have e1: "ui s ! 1 = pdf_upload\<lparr>status := StatusError,
         error := Some ''AI usage limit exceeded. Please try again in a few moments.''\<rparr>"
    by (simp add: b batch_env_def sample_readers analyze_busy_env new_Error_def or_else_def)
  from ui have e2: "ui s ! 2 = failed_upload\<lparr>status := Success, contract := Some sample_contract\<rparr>"
    and e3: "ui s ! 3 = pdf_upload\<lparr>status := StatusError,
         error := Some (''Analyzed successfully but failed to save to ''
                        @ ''browser storage. Check available disk space.'')\<rparr>"
    by simp_all
  from reach pc thrown e0 e1 e2 e3 show ?thesis
    by (intro exI[of _ s] conjI)
qed


end
